theory Spec2Isabelle
  imports Complex_Main
begin

section \<open>Data model\<close>

text \<open>
  The documents of the three collections the routes work on, as the mongoose
  schemas declare them (models Job, Bid and Payment). Object identifiers are
  natural numbers. A field of schema type Number holds a JavaScript number; here it holds
  the rational that the number is, and the routes only store and compare it. The
  \<^verbatim>\<open>attachments\<close> arrays and the \<^verbatim>\<open>createdAt\<close>/\<^verbatim>\<open>updatedAt\<close> timestamps are left out:
  no route reads them to take a decision.
\<close>

type_synonym oid = nat

datatype role = Freelancer | Job_provider

record user =
  user_id :: oid
  user_role :: role

datatype jstatus = Open | In_progress | Completed | Cancelled

datatype bstatus = Pending | Accepted | Rejected

datatype pstatus = Created | Paid | Failed | Refunded

record job =
  title :: string
  description :: string
  category :: string
  budget :: rat
  budgetType :: string
  skills :: "string list"
  duration :: "string option"
  experienceLevel :: string
  createdBy :: oid
  job_status :: jstatus
  assignedTo :: "oid option"
  bidsCount :: int

record bid =
  freelancerId :: oid
  bid_jobId :: oid
  bidAmount :: rat
  message :: string
  deliveryTime :: rat
  bid_status :: bstatus

record payment =
  payment_jobId :: oid
  payerId :: oid
  payeeId :: oid
  amount :: rat
  razorpayOrderId :: string
  razorpayPaymentId :: "string option"
  razorpaySignature :: "string option"
  payment_status :: pstatus
  payment_description :: string

text \<open>
  The database: each collection lists its documents in insertion order, paired with
  their \<^verbatim>\<open>_id\<close>. \<open>next_oid\<close> stands for the driver's ObjectId generator, which never
  hands out the same identifier twice.
\<close>

record store =
  jobs :: "(oid \<times> job) list"
  bids :: "(oid \<times> bid) list"
  payments :: "(oid \<times> payment) list"
  next_oid :: oid

definition empty_store :: store where
  "empty_store = \<lparr>jobs = [], bids = [], payments = [], next_oid = 0\<rparr>"

subsection \<open>Collection operations\<close>

definition findById :: "oid \<Rightarrow> (oid \<times> 'a) list \<Rightarrow> 'a option" where
  "findById i xs = map_of xs i"

definition findOne :: "('a \<Rightarrow> bool) \<Rightarrow> (oid \<times> 'a) list \<Rightarrow> (oid \<times> 'a) option" where
  "findOne P xs = List.find (\<lambda>kv. P (snd kv)) xs"

definition updateById :: "oid \<Rightarrow> ('a \<Rightarrow> 'a) \<Rightarrow> (oid \<times> 'a) list \<Rightarrow> (oid \<times> 'a) list" where
  "updateById i f xs = map (\<lambda>kv. if fst kv = i then (fst kv, f (snd kv)) else kv) xs"

definition updateMany :: "(oid \<Rightarrow> 'a \<Rightarrow> bool) \<Rightarrow> ('a \<Rightarrow> 'a) \<Rightarrow> (oid \<times> 'a) list \<Rightarrow> (oid \<times> 'a) list" where
  "updateMany P f xs = map (\<lambda>kv. if P (fst kv) (snd kv) then (fst kv, f (snd kv)) else kv) xs"

definition deleteById :: "oid \<Rightarrow> (oid \<times> 'a) list \<Rightarrow> (oid \<times> 'a) list" where
  "deleteById i xs = filter (\<lambda>kv. fst kv \<noteq> i) xs"

definition deleteMany :: "('a \<Rightarrow> bool) \<Rightarrow> (oid \<times> 'a) list \<Rightarrow> (oid \<times> 'a) list" where
  "deleteMany P xs = filter (\<lambda>kv. \<not> P (snd kv)) xs"

text \<open>
  Saving a new bid. The Bid schema declares a unique index on
  \<^verbatim>\<open>{ freelancerId: 1, jobId: 1 }\<close>: the store itself refuses a second document with
  the same pair (a duplicate key error, \<open>None\<close>), whatever the caller checked before.
\<close>

definition same_pair :: "bid \<Rightarrow> bid \<Rightarrow> bool" where
  "same_pair a b = (freelancerId a = freelancerId b \<and> bid_jobId a = bid_jobId b)"

definition save_bid :: "oid \<Rightarrow> bid \<Rightarrow> (oid \<times> bid) list \<Rightarrow> (oid \<times> bid) list option" where
  "save_bid i b xs = (if list_ex (\<lambda>kv. same_pair (snd kv) b) xs then None else Some (xs @ [(i, b)]))"

section \<open>Requests and responses\<close>

text \<open>
  What a route answers: the HTTP status with the \<^verbatim>\<open>message\<close> of its JSON body.
  \<open>ValidationFailed\<close> is the 400 whose body is the validators' \<^verbatim>\<open>errors\<close> array;
  \<open>BadRequest\<close> is a 400 with a message; \<open>RoleDenied\<close> is the refusal of the
  \<^verbatim>\<open>authorize\<close> middleware.
\<close>

datatype response =
    OK string
  | Created201 string
  | ValidationFailed
  | BadRequest string
  | RoleDenied
  | Forbidden string
  | NotFound string
  | ServerError string

text \<open>
  Modelled from the spec: the middleware module (\<^verbatim>\<open>auth\<close>, \<^verbatim>\<open>authorize\<close>) is not among
  the sources. The spec says that the role of a user gates which operations an actor may
  perform; \<^verbatim>\<open>authorize('r')\<close> lets a request through when the authenticated user has
  role \<open>r\<close>. Every request below carries the user that \<^verbatim>\<open>auth\<close> has put in
  \<^verbatim>\<open>req.user\<close>.
\<close>

definition authorize :: "role \<Rightarrow> user \<Rightarrow> bool" where
  "authorize r u = (user_role u = r)"


text \<open>JavaScript's \<^verbatim>\<open>x || d\<close> on an optional string: the empty string is falsy too.\<close>

definition or_default :: "string option \<Rightarrow> string \<Rightarrow> string" where
  "or_default x d = (case x of None \<Rightarrow> d | Some v \<Rightarrow> if v = [] then d else v)"

section \<open>Libraries and environment\<close>

text \<open>
  A field of a request body where a route expects a number: after \<^verbatim>\<open>express.json\<close> it
  is a JavaScript number (\<open>Num\<close>, with its value) or a string.
\<close>

datatype body_value = Num rat | Str string

text \<open>The payment entity of a webhook event, and the events the webhook route tells apart.\<close>

record payment_entity =
  order_id :: string
  entity_id :: string

datatype webhook_event =
    Payment_captured payment_entity
  | Payment_failed payment_entity
  | Unhandled

text \<open>
  What the routes take from outside the repository. These are parameters: every theorem
  holds for any of them.
  \<^item> \<^verbatim>\<open>crypto\<close>: the HMAC-SHA256 of a message under a key, as a hexadecimal digest;
  \<^item> the process environment: the key secret (the Razorpay client refuses to be built
    without one, so it is a string) and the webhook secret, which may be missing;
  \<^item> the decoding of a webhook body: \<^verbatim>\<open>JSON.parse\<close> and the reads of \<^verbatim>\<open>event.event\<close>
    and \<^verbatim>\<open>event.payload.payment.entity\<close>, \<open>None\<close> when one of them throws;
  \<^item> \<^verbatim>\<open>express-validator\<close>: the validators \<^verbatim>\<open>isNumeric()\<close>, \<^verbatim>\<open>isFloat({ min })\<close>,
    \<^verbatim>\<open>isInt({ min })\<close> and \<^verbatim>\<open>isLength({ min })\<close>, which test the string form of a
    field, and the sanitizer \<^verbatim>\<open>trim()\<close>, which replaces the field in the body;
  \<^item> \<^verbatim>\<open>mongoose\<close>: the cast of a value to the schema type Number (\<open>None\<close> when it
    throws a CastError) and the setter of a String path declared \<^verbatim>\<open>trim: true\<close>.
\<close>

record env =
  hmac_sha256_hex :: "string \<Rightarrow> string \<Rightarrow> string"
  RAZORPAY_KEY_SECRET :: string
  RAZORPAY_WEBHOOK_SECRET :: "string option"
  parse_event :: "string \<Rightarrow> webhook_event option"
  isNumeric :: "body_value \<Rightarrow> bool"
  isFloat :: "rat \<Rightarrow> body_value \<Rightarrow> bool"
  isInt :: "int \<Rightarrow> body_value \<Rightarrow> bool"
  isLength :: "nat \<Rightarrow> string \<Rightarrow> bool"
  trim :: "string \<Rightarrow> string"
  to_number :: "body_value \<Rightarrow> rat option"
  schema_trim :: "string \<Rightarrow> string"

section \<open>Job routes\<close>

definition job_categories :: "string list" where
  "job_categories = [''Web Development'', ''Mobile Development'', ''Design'', ''Writing'',
     ''Data Entry'', ''Digital Marketing'', ''Video Editing'', ''Translation'', ''Other'']"

definition job_durations :: "string list" where
  "job_durations = [''less_than_1_week'', ''1_to_4_weeks'', ''1_to_3_months'',
     ''3_to_6_months'', ''more_than_6_months'']"


record job_request =
  req_title :: string
  req_description :: string
  req_category :: string
  req_budget :: body_value
  req_budgetType :: "string option"
  req_skills :: "string list option"
  req_duration :: "string option"
  req_experienceLevel :: "string option"

text \<open>
  The validators of POST /api/jobs (lines 118 to 121): whether
  \<^verbatim>\<open>validationResult(req).isEmpty()\<close>.
\<close>

definition job_checks :: "env \<Rightarrow> job_request \<Rightarrow> bool" where
  "job_checks e req =
     (isLength e 5 (trim e (req_title req)) \<and>
      isLength e 20 (trim e (req_description req)) \<and>
      req_category req \<in> set job_categories \<and>
      isNumeric e (req_budget req) \<and> isFloat e 1 (req_budget req))"

text \<open>The schema's validators, run by \<^verbatim>\<open>job.save()\<close>.\<close>

definition job_schema_valid :: "job \<Rightarrow> bool" where
  "job_schema_valid j =
     (title j \<noteq> [] \<and> description j \<noteq> [] \<and> category j \<in> set job_categories \<and>
      0 \<le> budget j \<and> budgetType j \<in> set [''fixed'', ''hourly''] \<and>
      (case duration j of None \<Rightarrow> True | Some d \<Rightarrow> d \<in> set job_durations) \<and>
      experienceLevel j \<in> set [''entry'', ''intermediate'', ''expert''])"

text \<open>
  \<^verbatim>\<open>new Job({...})\<close> on the sanitized body, with the schema's casts; \<open>None\<close> when the
  budget does not cast to a number, which \<^verbatim>\<open>job.save()\<close> reports as a validation error.
\<close>

definition new_job :: "env \<Rightarrow> user \<Rightarrow> job_request \<Rightarrow> job option" where
  "new_job e u req =
     (case to_number e (req_budget req) of
        None \<Rightarrow> None
      | Some b \<Rightarrow>
          Some \<lparr>title = schema_trim e (trim e (req_title req)),
                description = trim e (req_description req),
                category = req_category req,
                budget = b,
                budgetType = or_default (req_budgetType req) ''fixed'',
                skills = (case req_skills req of None \<Rightarrow> [] | Some ks \<Rightarrow> ks),
                duration = req_duration req,
                experienceLevel = or_default (req_experienceLevel req) ''intermediate'',
                createdBy = user_id u,
                job_status = Open,
                assignedTo = None,
                bidsCount = 0\<rparr>)"

text \<open>POST /api/jobs\<close>

definition createJob :: "env \<Rightarrow> store \<Rightarrow> user \<Rightarrow> job_request \<Rightarrow> response \<times> store" where
  "createJob e s u req =
     (if \<not> authorize Job_provider u then (RoleDenied, s)
      else if \<not> job_checks e req then (ValidationFailed, s)
      else (case new_job e u req of
              None \<Rightarrow> (ServerError ''Server error creating job'', s)
            | Some j \<Rightarrow>
                if \<not> job_schema_valid j then (ServerError ''Server error creating job'', s)
                else (Created201 ''Job created successfully'',
                      s\<lparr>jobs := jobs s @ [(next_oid s, j)], next_oid := Suc (next_oid s)\<rparr>)))"

text \<open>
  PUT /api/jobs/:id. A field of the body that is \<^verbatim>\<open>undefined\<close> is \<open>None\<close>. The
  status arrives as a string; \<^verbatim>\<open>runValidators\<close> checks it against the schema's enum,
  and a failed cast or validator ends in the route's \<^verbatim>\<open>catch\<close>.
\<close>

record job_update =
  upd_title :: "string option"
  upd_description :: "string option"
  upd_budget :: "body_value option"
  upd_skills :: "string list option"
  upd_status :: "string option"

definition parse_status :: "string \<Rightarrow> jstatus option" where
  "parse_status x =
     (if x = ''open'' then Some Open
      else if x = ''in_progress'' then Some In_progress
      else if x = ''completed'' then Some Completed
      else if x = ''cancelled'' then Some Cancelled
      else None)"

definition update_valid :: "env \<Rightarrow> job_update \<Rightarrow> bool" where
  "update_valid e upd =
     ((case upd_title upd of None \<Rightarrow> True | Some t \<Rightarrow> schema_trim e t \<noteq> []) \<and>
      (case upd_description upd of None \<Rightarrow> True | Some d \<Rightarrow> d \<noteq> []) \<and>
      (case upd_budget upd of None \<Rightarrow> True
       | Some v \<Rightarrow> (case to_number e v of None \<Rightarrow> False | Some b \<Rightarrow> 0 \<le> b)) \<and>
      (case upd_status upd of None \<Rightarrow> True | Some x \<Rightarrow> parse_status x \<noteq> None))"

definition apply_update :: "env \<Rightarrow> job_update \<Rightarrow> job \<Rightarrow> job" where
  "apply_update e upd j =
     j\<lparr>title := (case upd_title upd of None \<Rightarrow> title j | Some t \<Rightarrow> schema_trim e t),
       description := (case upd_description upd of None \<Rightarrow> description j | Some d \<Rightarrow> d),
       budget := (case upd_budget upd of None \<Rightarrow> budget j
                  | Some v \<Rightarrow> (case to_number e v of None \<Rightarrow> budget j | Some b \<Rightarrow> b)),
       skills := (case upd_skills upd of None \<Rightarrow> skills j | Some ks \<Rightarrow> ks),
       job_status := (case upd_status upd of None \<Rightarrow> job_status j
                      | Some x \<Rightarrow> (case parse_status x of None \<Rightarrow> job_status j | Some st \<Rightarrow> st))\<rparr>"

definition updateJob :: "env \<Rightarrow> store \<Rightarrow> user \<Rightarrow> oid \<Rightarrow> job_update \<Rightarrow> response \<times> store" where
  "updateJob e s u jid upd =
     (if \<not> authorize Job_provider u then (RoleDenied, s)
      else case findById jid (jobs s) of
        None \<Rightarrow> (NotFound ''Job not found'', s)
      | Some j \<Rightarrow>
          if createdBy j \<noteq> user_id u then (Forbidden ''Not authorized to update this job'', s)
          else if \<not> update_valid e upd then (ServerError ''Server error updating job'', s)
          else (OK ''Job updated successfully'',
                s\<lparr>jobs := updateById jid (apply_update e upd) (jobs s)\<rparr>))"

text \<open>DELETE /api/jobs/:id, with the cascade on the job's bids.\<close>

definition deleteJob :: "store \<Rightarrow> user \<Rightarrow> oid \<Rightarrow> response \<times> store" where
  "deleteJob s u jid =
     (if \<not> authorize Job_provider u then (RoleDenied, s)
      else case findById jid (jobs s) of
        None \<Rightarrow> (NotFound ''Job not found'', s)
      | Some j \<Rightarrow>
          if createdBy j \<noteq> user_id u then (Forbidden ''Not authorized to delete this job'', s)
          else (OK ''Job deleted successfully'',
                s\<lparr>jobs := deleteById jid (jobs s),
                  bids := deleteMany (\<lambda>b. bid_jobId b = jid) (bids s)\<rparr>))"

section \<open>Bid routes\<close>

record bid_request =
  req_jobId :: oid
  req_bidAmount :: body_value
  req_message :: string
  req_deliveryTime :: body_value

text \<open>
  The validators of POST /api/bids (lines 16 to 18): whether
  \<^verbatim>\<open>validationResult(req).isEmpty()\<close>. The job identifier is typed, so \<^verbatim>\<open>isMongoId()\<close>
  holds of it.
\<close>

definition bid_checks :: "env \<Rightarrow> bid_request \<Rightarrow> bool" where
  "bid_checks e req =
     (isNumeric e (req_bidAmount req) \<and> isFloat e 1 (req_bidAmount req) \<and>
      isLength e 10 (trim e (req_message req)) \<and>
      isInt e 1 (req_deliveryTime req))"

text \<open>
  \<^verbatim>\<open>new Bid({...})\<close> on the sanitized body and the schema's part of \<^verbatim>\<open>bid.save()\<close>: the
  casts to Number, \<^verbatim>\<open>min: 0\<close> on the amount and \<^verbatim>\<open>required\<close> on the message; \<open>None\<close>
  when one of them fails.
\<close>

definition new_bid :: "env \<Rightarrow> user \<Rightarrow> bid_request \<Rightarrow> bid option" where
  "new_bid e u req =
     (case to_number e (req_bidAmount req) of
        None \<Rightarrow> None
      | Some a \<Rightarrow>
          (case to_number e (req_deliveryTime req) of
             None \<Rightarrow> None
           | Some d \<Rightarrow>
               if 0 \<le> a \<and> trim e (req_message req) \<noteq> []
               then Some \<lparr>freelancerId = user_id u, bid_jobId = req_jobId req, bidAmount = a,
                          message = trim e (req_message req), deliveryTime = d,
                          bid_status = Pending\<rparr>
               else None))"

text \<open>POST /api/bids\<close>

definition placeBid :: "env \<Rightarrow> store \<Rightarrow> user \<Rightarrow> bid_request \<Rightarrow> response \<times> store" where
  "placeBid e s u req =
     (if \<not> authorize Freelancer u then (RoleDenied, s)
      else if \<not> bid_checks e req then (ValidationFailed, s)
      else case findById (req_jobId req) (jobs s) of
        None \<Rightarrow> (NotFound ''Job not found'', s)
      | Some j \<Rightarrow>
          if job_status j \<noteq> Open then (BadRequest ''Job is not open for bidding'', s)
          else (case findOne (\<lambda>b. freelancerId b = user_id u \<and> bid_jobId b = req_jobId req) (bids s) of
            Some existingBid \<Rightarrow> (BadRequest ''You have already bid on this job'', s)
          | None \<Rightarrow>
              (case new_bid e u req of
                 None \<Rightarrow> (ServerError ''Server error creating bid'', s)
               | Some b \<Rightarrow>
                   (case save_bid (next_oid s) b (bids s) of
                      None \<Rightarrow> (ServerError ''Server error creating bid'', s)
                    | Some bs \<Rightarrow>
                        (Created201 ''Bid submitted successfully'',
                         s\<lparr>bids := bs,
                           jobs := updateById (req_jobId req) (\<lambda>j. j\<lparr>bidsCount := bidsCount j + 1\<rparr>) (jobs s),
                           next_oid := Suc (next_oid s)\<rparr>)))))"

text \<open>
  PUT /api/bids/:id/accept. \<^verbatim>\<open>populate('jobId')\<close> leaves \<^verbatim>\<open>null\<close> when the job is gone,
  and reading \<^verbatim>\<open>createdBy\<close> of it throws into the route's \<^verbatim>\<open>catch\<close>. No route deletes a
  user, so the populated freelancer is always there.
\<close>

definition acceptBid :: "store \<Rightarrow> user \<Rightarrow> oid \<Rightarrow> response \<times> store" where
  "acceptBid s u bidId =
     (case findById bidId (bids s) of
        None \<Rightarrow> (NotFound ''Bid not found'', s)
      | Some b \<Rightarrow>
          (case findById (bid_jobId b) (jobs s) of
             None \<Rightarrow> (ServerError ''Server error accepting bid'', s)
           | Some j \<Rightarrow>
               if createdBy j \<noteq> user_id u then (Forbidden ''Not authorized to accept this bid'', s)
               else if job_status j \<noteq> Open then (BadRequest ''Job is no longer open'', s)
               else (OK ''Bid accepted successfully'',
                     s\<lparr>bids := updateMany (\<lambda>k x. bid_jobId x = bid_jobId b \<and> k \<noteq> bidId)
                                 (\<lambda>x. x\<lparr>bid_status := Rejected\<rparr>)
                                 (updateById bidId (\<lambda>x. x\<lparr>bid_status := Accepted\<rparr>) (bids s)),
                       jobs := updateById (bid_jobId b)
                                 (\<lambda>x. x\<lparr>job_status := In_progress, assignedTo := Some (freelancerId b)\<rparr>)
                                 (jobs s)\<rparr>)))"

text \<open>PUT /api/bids/:id/reject\<close>

definition rejectBid :: "store \<Rightarrow> user \<Rightarrow> oid \<Rightarrow> response \<times> store" where
  "rejectBid s u bidId =
     (case findById bidId (bids s) of
        None \<Rightarrow> (NotFound ''Bid not found'', s)
      | Some b \<Rightarrow>
          (case findById (bid_jobId b) (jobs s) of
             None \<Rightarrow> (ServerError ''Server error rejecting bid'', s)
           | Some j \<Rightarrow>
               if createdBy j \<noteq> user_id u then (Forbidden ''Not authorized to reject this bid'', s)
               else (OK ''Bid rejected successfully'',
                     s\<lparr>bids := updateById bidId (\<lambda>x. x\<lparr>bid_status := Rejected\<rparr>) (bids s)\<rparr>)))"

text \<open>DELETE /api/bids/:id\<close>

definition deleteBid :: "store \<Rightarrow> user \<Rightarrow> oid \<Rightarrow> response \<times> store" where
  "deleteBid s u bidId =
     (case findById bidId (bids s) of
        None \<Rightarrow> (NotFound ''Bid not found'', s)
      | Some b \<Rightarrow>
          if freelancerId b \<noteq> user_id u then (Forbidden ''Not authorized to delete this bid'', s)
          else if bid_status b \<noteq> Pending
            then (BadRequest ''Cannot delete a bid that has been accepted or rejected'', s)
          else (OK ''Bid deleted successfully'',
                s\<lparr>bids := deleteById bidId (bids s),
                  jobs := updateById (bid_jobId b) (\<lambda>j. j\<lparr>bidsCount := bidsCount j - 1\<rparr>) (jobs s)\<rparr>))"

section \<open>Payment routes\<close>

record order_request =
  ord_jobId :: oid
  ord_amount :: body_value
  ord_description :: "string option"

text \<open>
  The validators of POST /api/payment/create-order (line 25): whether
  \<^verbatim>\<open>validationResult(req).isEmpty()\<close>.
\<close>

definition order_checks :: "env \<Rightarrow> order_request \<Rightarrow> bool" where
  "order_checks e req = (isNumeric e (ord_amount req) \<and> isFloat e 1 (ord_amount req))"

text \<open>
  \<^verbatim>\<open>new Payment({...})\<close> for the order that the gateway returned and the schema's part
  of \<^verbatim>\<open>payment.save()\<close>: the cast of the amount, \<^verbatim>\<open>min: 0\<close> on it and \<^verbatim>\<open>required\<close> on
  the order identifier; \<open>None\<close> when one of them fails.
\<close>

definition new_payment :: "env \<Rightarrow> user \<Rightarrow> order_request \<Rightarrow> job \<Rightarrow> oid \<Rightarrow> string \<Rightarrow> payment option" where
  "new_payment e u req j payee order =
     (case to_number e (ord_amount req) of
        None \<Rightarrow> None
      | Some a \<Rightarrow>
          if 0 \<le> a \<and> order \<noteq> []
          then Some \<lparr>payment_jobId = ord_jobId req, payerId = user_id u, payeeId = payee,
                     amount = a, razorpayOrderId = order,
                     razorpayPaymentId = None, razorpaySignature = None,
                     payment_status = Created,
                     payment_description =
                       or_default (ord_description req) (''Payment for job: '' @ title j)\<rparr>
          else None)"

text \<open>
  POST /api/payment/create-order. \<open>reply\<close> is the gateway's answer to
  \<^verbatim>\<open>razorpay.orders.create\<close>: the identifier of the new order, or \<open>None\<close> when the
  call fails.
\<close>

definition createOrder :: "env \<Rightarrow> store \<Rightarrow> user \<Rightarrow> order_request \<Rightarrow> string option \<Rightarrow> response \<times> store" where
  "createOrder e s u req reply =
     (if \<not> authorize Job_provider u then (RoleDenied, s)
      else if \<not> order_checks e req then (ValidationFailed, s)
      else case findById (ord_jobId req) (jobs s) of
        None \<Rightarrow> (NotFound ''Job not found'', s)
      | Some j \<Rightarrow>
          if createdBy j \<noteq> user_id u
            then (Forbidden ''Not authorized to make payment for this job'', s)
          else (case assignedTo j of
            None \<Rightarrow> (BadRequest ''Job has not been assigned to any freelancer'', s)
          | Some payee \<Rightarrow>
              (case reply of
                 None \<Rightarrow> (ServerError ''Server error creating payment order'', s)
               | Some order \<Rightarrow>
                   (case new_payment e u req j payee order of
                      None \<Rightarrow> (ServerError ''Server error creating payment order'', s)
                    | Some p \<Rightarrow>
                        (OK ''Payment order created successfully'',
                         s\<lparr>payments := payments s @ [(next_oid s, p)],
                           next_oid := Suc (next_oid s)\<rparr>)))))"

record verify_request =
  razorpay_order_id :: "string option"
  razorpay_payment_id :: "string option"
  razorpay_signature :: "string option"

definition expectedSignature :: "env \<Rightarrow> string \<Rightarrow> string \<Rightarrow> string" where
  "expectedSignature e order payid =
     hmac_sha256_hex e (RAZORPAY_KEY_SECRET e) (order @ ''|'' @ payid)"

text \<open>The comparison of line 126, \<^verbatim>\<open>expectedSignature !== razorpay_signature\<close>, negated.\<close>

definition signature_ok :: "env \<Rightarrow> string \<Rightarrow> string \<Rightarrow> string \<Rightarrow> bool" where
  "signature_ok e order payid sig = (expectedSignature e order payid = sig)"

text \<open>
  POST /api/payment/verify. The three \<^verbatim>\<open>exists()\<close> validators refuse a missing field.
  The payment is saved as paid before the job is touched; \<^verbatim>\<open>populate('jobId')\<close> leaves
  \<^verbatim>\<open>null\<close> for a deleted job, and \<^verbatim>\<open>payment.jobId._id\<close> then throws into the \<^verbatim>\<open>catch\<close>.
\<close>

definition verifyPayment :: "env \<Rightarrow> store \<Rightarrow> user \<Rightarrow> verify_request \<Rightarrow> response \<times> store" where
  "verifyPayment e s u req =
     (case razorpay_order_id req of
        None \<Rightarrow> (ValidationFailed, s)
      | Some order \<Rightarrow>
     (case razorpay_payment_id req of
        None \<Rightarrow> (ValidationFailed, s)
      | Some payid \<Rightarrow>
     (case razorpay_signature req of
        None \<Rightarrow> (ValidationFailed, s)
      | Some sig \<Rightarrow>
     (case findOne (\<lambda>p. razorpayOrderId p = order) (payments s) of
        None \<Rightarrow> (NotFound ''Payment record not found'', s)
      | Some (pid, p) \<Rightarrow>
          if \<not> signature_ok e order payid sig
            then (BadRequest ''Invalid payment signature'',
                  s\<lparr>payments := updateById pid (\<lambda>x. x\<lparr>payment_status := Failed\<rparr>) (payments s)\<rparr>)
          else
            let s1 = s\<lparr>payments := updateById pid
                         (\<lambda>x. x\<lparr>razorpayPaymentId := Some payid, razorpaySignature := Some sig,
                                payment_status := Paid\<rparr>) (payments s)\<rparr>
            in (case findById (payment_jobId p) (jobs s) of
                  None \<Rightarrow> (ServerError ''Server error verifying payment'', s1)
                | Some j \<Rightarrow>
                    (OK ''Payment verified successfully'',
                     s1\<lparr>jobs := updateById (payment_jobId p) (\<lambda>x. x\<lparr>job_status := Completed\<rparr>) (jobs s)\<rparr>))))))"

text \<open>The two helpers of the webhook route.\<close>

definition handlePaymentCaptured :: "store \<Rightarrow> payment_entity \<Rightarrow> store" where
  "handlePaymentCaptured s paymentData =
     (case findOne (\<lambda>p. razorpayOrderId p = order_id paymentData) (payments s) of
        None \<Rightarrow> s
      | Some (pid, p) \<Rightarrow>
          s\<lparr>payments := updateById pid
               (\<lambda>x. x\<lparr>payment_status := Paid, razorpayPaymentId := Some (entity_id paymentData)\<rparr>)
               (payments s),
            jobs := updateById (payment_jobId p) (\<lambda>x. x\<lparr>job_status := Completed\<rparr>) (jobs s)\<rparr>)"

definition handlePaymentFailed :: "store \<Rightarrow> payment_entity \<Rightarrow> store" where
  "handlePaymentFailed s paymentData =
     (case findOne (\<lambda>p. razorpayOrderId p = order_id paymentData) (payments s) of
        None \<Rightarrow> s
      | Some (pid, p) \<Rightarrow>
          s\<lparr>payments := updateById pid (\<lambda>x. x\<lparr>payment_status := Failed\<rparr>) (payments s)\<rparr>)"


text \<open>
  What a handler finds in \<^verbatim>\<open>req.body\<close>: the bytes of the body, which \<^verbatim>\<open>express.raw\<close>
  leaves as a Buffer, or what another parser left there (the object or array that
  \<^verbatim>\<open>express.json\<close> or \<^verbatim>\<open>express.urlencoded\<close> built, or the empty object of a body
  that no parser took).
\<close>

datatype req_body = Buffer string | Parsed

text \<open>
  POST /api/payment/webhook, on the \<^verbatim>\<open>x-razorpay-signature\<close> header (\<open>None\<close> when the
  request has none) and \<^verbatim>\<open>req.body\<close>. \<^verbatim>\<open>createHmac(...).update(body)\<close> takes a string
  or a Buffer: on anything else it throws a TypeError into the route's \<^verbatim>\<open>catch\<close>.
\<close>

definition webhook :: "env \<Rightarrow> store \<Rightarrow> string option \<Rightarrow> req_body \<Rightarrow> response \<times> store" where
  "webhook e s signature body =
     (case body of
        Parsed \<Rightarrow> (ServerError ''Webhook processing error'', s)
      | Buffer b \<Rightarrow>
          if signature \<noteq> Some (hmac_sha256_hex e
                                  (or_default (RAZORPAY_WEBHOOK_SECRET e) (RAZORPAY_KEY_SECRET e)) b)
            then (BadRequest ''Invalid webhook signature'', s)
          else (case parse_event e b of
                  None \<Rightarrow> (ServerError ''Webhook processing error'', s)
                | Some (Payment_captured d) \<Rightarrow> (OK ''ok'', handlePaymentCaptured s d)
                | Some (Payment_failed d) \<Rightarrow> (OK ''ok'', handlePaymentFailed s d)
                | Some Unhandled \<Rightarrow> (OK ''ok'', s)))"

section \<open>The system as a whole\<close>

text \<open>
  One constructor for each state-changing route that the server mounts, with what
  reaches the route. A webhook request carries its signature header and its payload.

  The server mounts \<^verbatim>\<open>express.json\<close> and \<^verbatim>\<open>express.urlencoded\<close> on every path, before
  the routers (lines 22 and 23 of the server file). So the webhook route never finds the
  bytes of the payload in \<^verbatim>\<open>req.body\<close>: a JSON payload has been parsed when the route
  runs, and the route's own \<^verbatim>\<open>express.raw\<close> stands aside for a body that is parsed
  already, or that is not of type \<^verbatim>\<open>application/json\<close>. A payload that \<^verbatim>\<open>express.json\<close>
  refuses does not reach the route at all.
\<close>

datatype request =
    CreateJob user job_request
  | UpdateJob user oid job_update
  | DeleteJob user oid
  | PlaceBid user bid_request
  | AcceptBid user oid
  | RejectBid user oid
  | DeleteBid user oid
  | CreateOrder user order_request "string option"
  | VerifyPayment user verify_request
  | Webhook "string option" string

fun handle :: "env \<Rightarrow> store \<Rightarrow> request \<Rightarrow> response \<times> store" where
  "handle e s (CreateJob u r) = createJob e s u r"
| "handle e s (UpdateJob u i r) = updateJob e s u i r"
| "handle e s (DeleteJob u i) = deleteJob s u i"
| "handle e s (PlaceBid u r) = placeBid e s u r"
| "handle e s (AcceptBid u i) = acceptBid s u i"
| "handle e s (RejectBid u i) = rejectBid s u i"
| "handle e s (DeleteBid u i) = deleteBid s u i"
| "handle e s (CreateOrder u r g) = createOrder e s u r g"
| "handle e s (VerifyPayment u r) = verifyPayment e s u r"
| "handle e s (Webhook h payload) = webhook e s h Parsed"

text \<open>The states the system can be in: the empty database, and what any request makes of one.\<close>

inductive reachable :: "env \<Rightarrow> store \<Rightarrow> bool" for e :: env where
  init: "reachable e empty_store"
| step: "reachable e s \<Longrightarrow> reachable e (snd (handle e s r))"

section \<open>Properties of interest\<close>

text \<open>The job invariant of the data model: a freelancer is assigned exactly when the job is in progress or completed.\<close>

definition job_inv :: "job \<Rightarrow> bool" where
  "job_inv j = ((assignedTo j \<noteq> None) = (job_status j = In_progress \<or> job_status j = Completed))"

definition jobs_ok :: "store \<Rightarrow> bool" where
  "jobs_ok s = list_all (\<lambda>kv. job_inv (snd kv)) (jobs s)"

text \<open>An update of a job that carries a \<^verbatim>\<open>status\<close> field: the owner's override of the life cycle.\<close>

fun overrides_status :: "request \<Rightarrow> bool" where
  "overrides_status (UpdateJob u i upd) = (upd_status upd \<noteq> None)"
| "overrides_status r = False"

text \<open>
  What holds of the references between collections in every reachable state: no two
  jobs share an identifier, identifiers in use are below the generator's next one, and a
  payment's job, while it exists, has a freelancer assigned.
\<close>

definition refs_ok :: "store \<Rightarrow> bool" where
  "refs_ok s =
     (distinct (map fst (jobs s)) \<and>
      list_all (\<lambda>kv. fst kv < next_oid s) (jobs s) \<and>
      list_all (\<lambda>kp. payment_jobId (snd kp) < next_oid s \<and>
                  list_all (\<lambda>kj. fst kj \<noteq> payment_jobId (snd kp) \<or> assignedTo (snd kj) \<noteq> None) (jobs s))
               (payments s))"

text \<open>At most one bid for a pair of freelancer and job.\<close>

definition bid_pair :: "oid \<times> bid \<Rightarrow> oid \<times> oid" where
  "bid_pair kv = (freelancerId (snd kv), bid_jobId (snd kv))"


definition has_bid :: "oid \<Rightarrow> oid \<Rightarrow> (oid \<times> bid) list \<Rightarrow> bool" where
  "has_bid f j xs = list_ex (\<lambda>kv. freelancerId (snd kv) = f \<and> bid_jobId (snd kv) = j) xs"


text \<open>
  An update of job \<open>i\<close> whose status moves the job \<open>j\<close> between the statuses that go
  with an assigned freelancer (in progress, completed) and the others (open, cancelled).
\<close>

fun crossing_override :: "job \<Rightarrow> oid \<Rightarrow> request \<Rightarrow> bool" where
  "crossing_override j i (UpdateJob u i' upd) =
     (i' = i \<and>
      (case upd_status upd of
         None \<Rightarrow> False
       | Some x \<Rightarrow>
           (case parse_status x of
              None \<Rightarrow> False
            | Some st \<Rightarrow>
                (st = In_progress \<or> st = Completed)
                  \<noteq> (job_status j = In_progress \<or> job_status j = Completed))))"
| "crossing_override j i r = False"


text \<open>
  The one request that writes \<^verbatim>\<open>failed\<close> into payment \<open>k\<close>: a verification whose
  order identifier locates that payment and whose signature does not match.
\<close>

fun voids_payment :: "env \<Rightarrow> store \<Rightarrow> oid \<Rightarrow> request \<Rightarrow> bool" where
  "voids_payment e s k (VerifyPayment u req) =
     (case razorpay_order_id req of None \<Rightarrow> False | Some order \<Rightarrow>
      (case razorpay_payment_id req of None \<Rightarrow> False | Some payid \<Rightarrow>
       (case razorpay_signature req of None \<Rightarrow> False | Some sig \<Rightarrow>
          \<not> signature_ok e order payid sig \<and>
          map_option fst (findOne (\<lambda>p. razorpayOrderId p = order) (payments s)) = Some k)))"
| "voids_payment e s k r = False"


text \<open>Flipping bit \<open>n\<close> of the character at position \<open>i\<close> of a string.\<close>

fun flip_bit_char :: "nat \<Rightarrow> char \<Rightarrow> char" where
  "flip_bit_char n (Char b0 b1 b2 b3 b4 b5 b6 b7) =
     Char (b0 \<noteq> (n = 0)) (b1 \<noteq> (n = 1)) (b2 \<noteq> (n = 2)) (b3 \<noteq> (n = 3))
          (b4 \<noteq> (n = 4)) (b5 \<noteq> (n = 5)) (b6 \<noteq> (n = 6)) (b7 \<noteq> (n = 7))"

definition flip_sig_bit :: "nat \<Rightarrow> nat \<Rightarrow> string \<Rightarrow> string" where
  "flip_sig_bit i n x = x[i := flip_bit_char n (x ! i)]"

text \<open>The status of the job of the payment that an order identifier locates.\<close>

definition settled_status :: "store \<Rightarrow> string \<Rightarrow> jstatus option" where
  "settled_status s order =
     (case findOne (\<lambda>p. razorpayOrderId p = order) (payments s) of
        None \<Rightarrow> None
      | Some (pid, p) \<Rightarrow> map_option job_status (findById (payment_jobId p) (jobs s)))"

section \<open>A run of the system\<close>

text \<open>
  The scenario of the specification: a job with budget 500, two freelancers bidding 400
  and 450, the owner accepting the first bid and paying through order \<^verbatim>\<open>order_1\<close>. The
  environment is a toy one, enough to run the scenario: its digest is the key, a colon and
  the message, its validators and casts take numbers only, its trims change nothing.
\<close>

definition owner :: user where
  "owner = \<lparr>user_id = 100, user_role = Job_provider\<rparr>"

definition alice :: user where
  "alice = \<lparr>user_id = 1, user_role = Freelancer\<rparr>"

definition bob :: user where
  "bob = \<lparr>user_id = 2, user_role = Freelancer\<rparr>"

definition captured_1 :: payment_entity where
  "captured_1 = \<lparr>order_id = ''order_1'', entity_id = ''pay_1''\<rparr>"

definition demo_env :: env where
  "demo_env =
     \<lparr>hmac_sha256_hex = (\<lambda>k m. k @ '':'' @ m),
      RAZORPAY_KEY_SECRET = ''secret'',
      RAZORPAY_WEBHOOK_SECRET = None,
      parse_event = (\<lambda>b. if b = ''captured'' then Some (Payment_captured captured_1)
                          else if b = ''failed'' then Some (Payment_failed captured_1)
                          else if b = ''other'' then Some Unhandled
                          else None),
      isNumeric = (\<lambda>v. case v of Num x \<Rightarrow> True | Str x \<Rightarrow> False),
      isFloat = (\<lambda>m v. case v of Num x \<Rightarrow> m \<le> x | Str x \<Rightarrow> False),
      isInt = (\<lambda>m v. case v of Num x \<Rightarrow> of_int m \<le> x | Str x \<Rightarrow> False),
      isLength = (\<lambda>n x. n \<le> length x),
      trim = (\<lambda>x. x),
      to_number = (\<lambda>v. case v of Num x \<Rightarrow> Some x | Str x \<Rightarrow> None),
      schema_trim = (\<lambda>x. x)\<rparr>"

definition job_req :: job_request where
  "job_req =
     \<lparr>req_title = ''Build a site'', req_description = ''A landing page for a bakery'',
      req_category = ''Web Development'', req_budget = Num 500, req_budgetType = None,
      req_skills = None, req_duration = None, req_experienceLevel = None\<rparr>"

definition bid_req_a :: bid_request where
  "bid_req_a = \<lparr>req_jobId = 0, req_bidAmount = Num 400, req_message = ''I can do this'',
                req_deliveryTime = Num 7\<rparr>"

definition bid_req_b :: bid_request where
  "bid_req_b = \<lparr>req_jobId = 0, req_bidAmount = Num 450, req_message = ''I can do this too'',
                req_deliveryTime = Num 5\<rparr>"

definition order_req :: order_request where
  "order_req = \<lparr>ord_jobId = 0, ord_amount = Num 500, ord_description = None\<rparr>"

definition verify_req :: verify_request where
  "verify_req =
     \<lparr>razorpay_order_id = Some ''order_1'', razorpay_payment_id = Some ''pay_1'',
      razorpay_signature = Some ''secret:order_1|pay_1''\<rparr>"

definition verify_req_bad :: verify_request where
  "verify_req_bad =
     \<lparr>razorpay_order_id = Some ''order_1'', razorpay_payment_id = Some ''pay_1'',
      razorpay_signature = Some ''secret:order_1|pay_2''\<rparr>"

definition status_update :: "string \<Rightarrow> job_update" where
  "status_update x =
     \<lparr>upd_title = None, upd_description = None, upd_budget = None, upd_skills = None,
      upd_status = Some x\<rparr>"

definition demo_job :: job where
  "demo_job =
     \<lparr>title = ''Build a site'', description = ''A landing page for a bakery'',
      category = ''Web Development'', budget = 500, budgetType = ''fixed'', skills = [],
      duration = None, experienceLevel = ''intermediate'', createdBy = 100,
      job_status = Open, assignedTo = None, bidsCount = 0\<rparr>"

definition bid_a :: bid where
  "bid_a = \<lparr>freelancerId = 1, bid_jobId = 0, bidAmount = 400, message = ''I can do this'',
            deliveryTime = 7, bid_status = Pending\<rparr>"

definition bid_b :: bid where
  "bid_b = \<lparr>freelancerId = 2, bid_jobId = 0, bidAmount = 450, message = ''I can do this too'',
            deliveryTime = 5, bid_status = Pending\<rparr>"

definition demo_payment :: payment where
  "demo_payment =
     \<lparr>payment_jobId = 0, payerId = 100, payeeId = 1, amount = 500,
      razorpayOrderId = ''order_1'', razorpayPaymentId = None, razorpaySignature = None,
      payment_status = Created, payment_description = ''Payment for job: Build a site''\<rparr>"

definition st_created :: store where
  "st_created = \<lparr>jobs = [(0, demo_job)], bids = [], payments = [], next_oid = 1\<rparr>"

definition st_open :: store where
  "st_open =
     \<lparr>jobs = [(0, demo_job\<lparr>bidsCount := 2\<rparr>)], bids = [(1, bid_a), (2, bid_b)],
      payments = [], next_oid = 3\<rparr>"

definition st_assigned :: store where
  "st_assigned =
     \<lparr>jobs = [(0, demo_job\<lparr>job_status := In_progress, assignedTo := Some 1, bidsCount := 2\<rparr>)],
      bids = [(1, bid_a\<lparr>bid_status := Accepted\<rparr>), (2, bid_b\<lparr>bid_status := Rejected\<rparr>)],
      payments = [], next_oid = 3\<rparr>"

definition st_ordered :: store where
  "st_ordered = st_assigned\<lparr>payments := [(3, demo_payment)], next_oid := 4\<rparr>"

definition st_paid :: store where
  "st_paid =
     \<lparr>jobs = [(0, demo_job\<lparr>job_status := Completed, assignedTo := Some 1, bidsCount := 2\<rparr>)],
      bids = [(1, bid_a\<lparr>bid_status := Accepted\<rparr>), (2, bid_b\<lparr>bid_status := Rejected\<rparr>)],
      payments = [(3, demo_payment\<lparr>razorpayPaymentId := Some ''pay_1'',
                                   razorpaySignature := Some ''secret:order_1|pay_1'',
                                   payment_status := Paid\<rparr>)],
      next_oid = 4\<rparr>"
section \<open>Facts about the collection operations\<close>

lemma findById_updateById:
  "findById i (updateById k f xs) = (if i = k then map_option f (findById i xs) else findById i xs)"
  by (induction xs) (auto simp: findById_def updateById_def)

lemma findById_updateMany:
  "findById i (updateMany P f xs) = map_option (\<lambda>v. if P i v then f v else v) (findById i xs)"
  by (induction xs) (auto simp: findById_def updateMany_def)

lemma findById_append:
  "findById i (xs @ ys) = (case findById i xs of None \<Rightarrow> findById i ys | Some v \<Rightarrow> Some v)"
  by (simp add: findById_def map_add_def split: option.splits)

lemma findById_deleteById_other:
  "i \<noteq> k \<Longrightarrow> findById i (deleteById k xs) = findById i xs"
  by (induction xs) (auto simp: findById_def deleteById_def)

lemma findById_in_set: "findById i xs = Some v \<Longrightarrow> (i, v) \<in> set xs"
  by (simp add: findById_def map_of_SomeD)

lemma findOne_updateById:
  assumes "\<And>v. P (f v) = P v"
  shows "findOne P (updateById k f xs) =
           map_option (\<lambda>kv. if fst kv = k then (fst kv, f (snd kv)) else kv) (findOne P xs)"
  using assms by (induction xs) (auto simp: findOne_def updateById_def)

lemma findOne_in_set: "findOne P xs = Some (k, v) \<Longrightarrow> (k, v) \<in> set xs"
  by (induction xs) (auto simp: findOne_def split: if_splits)

lemma findOne_holds: "findOne P xs = Some (k, v) \<Longrightarrow> P v"
  by (induction xs) (auto simp: findOne_def split: if_splits)

lemma findOne_only:
  assumes "(k, v) \<in> set xs" and "P v"
    and "\<And>k' v'. (k', v') \<in> set xs \<Longrightarrow> P v' \<Longrightarrow> (k', v') = (k, v)"
  shows "findOne P xs = Some (k, v)"
proof -
  from assms(1,2) have "findOne P xs \<noteq> None"
    by (auto simp: findOne_def find_None_iff intro!: bexI [of _ "(k, v)"])
  then obtain k' v' where f: "findOne P xs = Some (k', v')"
    by auto
  from assms(3) [OF findOne_in_set [OF f] findOne_holds [OF f]] f show ?thesis
    by simp
qed

lemma updateById_idem:
  assumes "\<And>v. f (f v) = f v"
  shows "updateById k f (updateById k f xs) = updateById k f xs"
  using assms by (induction xs) (auto simp: updateById_def)

lemma updateById_absorb:
  assumes "\<And>v. g (f v) = f v"
  shows "updateById k g (updateById k f xs) = updateById k f xs"
  using assms by (induction xs) (auto simp: updateById_def)

section \<open>The run of the scenario\<close>

lemmas demo_defs =
  owner_def alice_def bob_def captured_1_def demo_env_def job_req_def bid_req_a_def
  bid_req_b_def order_req_def verify_req_def verify_req_bad_def
  status_update_def demo_job_def bid_a_def bid_b_def demo_payment_def st_created_def
  st_open_def st_assigned_def st_ordered_def st_paid_def empty_store_def

lemmas route_defs =
  authorize_def job_checks_def new_job_def bid_checks_def new_bid_def order_checks_def
  new_payment_def or_default_def job_categories_def job_durations_def
  job_schema_valid_def findById_def findOne_def updateById_def updateMany_def deleteById_def
  deleteMany_def save_bid_def same_pair_def signature_ok_def expectedSignature_def

lemma run_createJob:
  "createJob demo_env empty_store owner job_req = (Created201 ''Job created successfully'', st_created)"
  by (simp add: createJob_def demo_defs route_defs)

lemma run_placeBid:
  "placeBid demo_env (snd (placeBid demo_env st_created alice bid_req_a)) bob bid_req_b
     = (Created201 ''Bid submitted successfully'', st_open)"
  by (simp add: placeBid_def demo_defs route_defs)

lemma run_acceptBid:
  "acceptBid st_open owner 1 = (OK ''Bid accepted successfully'', st_assigned)"
  by (simp add: acceptBid_def demo_defs route_defs)

lemma run_createOrder:
  "createOrder demo_env st_assigned owner order_req (Some ''order_1'')
     = (OK ''Payment order created successfully'', st_ordered)"
  by (simp add: createOrder_def demo_defs route_defs)

lemma run_verifyPayment:
  "verifyPayment demo_env st_ordered owner verify_req = (OK ''Payment verified successfully'', st_paid)"
  by (simp add: verifyPayment_def demo_defs route_defs)

section \<open>Payment verification\<close>

text \<open>
  C3. The record of an order identifier is the one \<^verbatim>\<open>findOne\<close> locates: the first
  with that identifier, which is the only one when the gateway's identifiers are unique
  (\<open>findOne_only\<close>). When that record is \<open>p\<close> and the supplied
  signature differs from the HMAC-SHA256 of \<^verbatim>\<open>orderId|transactionId\<close> under the key
  secret, the verification answers 400 "Invalid payment signature" (the specification's
  AuthenticationError), the record is saved as failed, and no job and no bid changes:
  in particular the job of the payment is not completed by the call.
\<close>

theorem verify_mismatch_marks_failed:
  assumes "razorpay_order_id req = Some order"
    and "razorpay_payment_id req = Some payid"
    and "razorpay_signature req = Some sig"
    and "findOne (\<lambda>p. razorpayOrderId p = order) (payments s) = Some (pid, p)"
    and "sig \<noteq> hmac_sha256_hex e (RAZORPAY_KEY_SECRET e) (order @ ''|'' @ payid)"
  shows "fst (verifyPayment e s u req) = BadRequest ''Invalid payment signature'' \<and>
         findOne (\<lambda>p. razorpayOrderId p = order) (payments (snd (verifyPayment e s u req)))
           = Some (pid, p\<lparr>payment_status := Failed\<rparr>) \<and>
         jobs (snd (verifyPayment e s u req)) = jobs s \<and>
         bids (snd (verifyPayment e s u req)) = bids s"
  using assms
  by (auto simp: verifyPayment_def signature_ok_def expectedSignature_def findOne_updateById)

theorem verify_mismatch_marks_failed_witness:
  "fst (verifyPayment demo_env st_ordered owner verify_req_bad)
     = BadRequest ''Invalid payment signature'' \<and>
   findOne (\<lambda>p. razorpayOrderId p = ''order_1'')
     (payments (snd (verifyPayment demo_env st_ordered owner verify_req_bad)))
     = Some (3, demo_payment\<lparr>payment_status := Failed\<rparr>) \<and>
   map (\<lambda>kv. job_status (snd kv)) (jobs (snd (verifyPayment demo_env st_ordered owner verify_req_bad)))
     = [In_progress]"
proof -
  have 1: "razorpay_order_id verify_req_bad = Some ''order_1''"
    and 2: "razorpay_payment_id verify_req_bad = Some ''pay_1''"
    and 3: "razorpay_signature verify_req_bad = Some ''secret:order_1|pay_2''"
    by (simp_all add: verify_req_bad_def)
  have 4: "findOne (\<lambda>p. razorpayOrderId p = ''order_1'') (payments st_ordered) = Some (3, demo_payment)"
    by (simp add: demo_defs findOne_def)
  have 5: "''secret:order_1|pay_2''
      \<noteq> hmac_sha256_hex demo_env (RAZORPAY_KEY_SECRET demo_env) (''order_1'' @ ''|'' @ ''pay_1'')"
    by (simp add: demo_env_def)
  have 6: "map (\<lambda>kv. job_status (snd kv)) (jobs st_ordered) = [In_progress]"
    by (simp add: demo_defs)
  show ?thesis
    using verify_mismatch_marks_failed [OF 1 2 3 4 5, of owner] 6 by simp
qed

text \<open>
  C4. When the supplied signature equals the HMAC-SHA256 of \<^verbatim>\<open>orderId|transactionId\<close>
  under the key secret, the record that the order identifier locates is saved as paid
  with the transaction identifier and the signature, and the job of the payment becomes
  completed.
\<close>

theorem verify_match_settles:
  assumes "razorpay_order_id req = Some order"
    and "razorpay_payment_id req = Some payid"
    and "razorpay_signature req = Some sig"
    and "findOne (\<lambda>p. razorpayOrderId p = order) (payments s) = Some (pid, p)"
    and "findById (payment_jobId p) (jobs s) = Some j"
    and "sig = hmac_sha256_hex e (RAZORPAY_KEY_SECRET e) (order @ ''|'' @ payid)"
  shows "fst (verifyPayment e s u req) = OK ''Payment verified successfully'' \<and>
         findOne (\<lambda>p. razorpayOrderId p = order) (payments (snd (verifyPayment e s u req)))
           = Some (pid, p\<lparr>razorpayPaymentId := Some payid, razorpaySignature := Some sig,
                          payment_status := Paid\<rparr>) \<and>
         findById (payment_jobId p) (jobs (snd (verifyPayment e s u req)))
           = Some (j\<lparr>job_status := Completed\<rparr>)"
  using assms
  by (auto simp: verifyPayment_def signature_ok_def expectedSignature_def findOne_updateById
      findById_updateById Let_def)

theorem verify_match_settles_witness:
  "fst (verifyPayment demo_env st_ordered owner verify_req) = OK ''Payment verified successfully'' \<and>
   findOne (\<lambda>p. razorpayOrderId p = ''order_1'')
     (payments (snd (verifyPayment demo_env st_ordered owner verify_req)))
     = Some (3, demo_payment\<lparr>razorpayPaymentId := Some ''pay_1'',
                             razorpaySignature := Some ''secret:order_1|pay_1'',
                             payment_status := Paid\<rparr>) \<and>
   map_option job_status (findById 0 (jobs (snd (verifyPayment demo_env st_ordered owner verify_req))))
     = Some Completed"
proof -
  have 1: "razorpay_order_id verify_req = Some ''order_1''"
    and 2: "razorpay_payment_id verify_req = Some ''pay_1''"
    and 3: "razorpay_signature verify_req = Some ''secret:order_1|pay_1''"
    by (simp_all add: verify_req_def)
  have 4: "findOne (\<lambda>p. razorpayOrderId p = ''order_1'') (payments st_ordered) = Some (3, demo_payment)"
    by (simp add: demo_defs findOne_def)
  have 5: "findById (payment_jobId demo_payment) (jobs st_ordered)
      = Some (demo_job\<lparr>job_status := In_progress, assignedTo := Some 1, bidsCount := 2\<rparr>)"
    by (simp add: demo_defs findById_def)
  have 6: "''secret:order_1|pay_1''
      = hmac_sha256_hex demo_env (RAZORPAY_KEY_SECRET demo_env) (''order_1'' @ ''|'' @ ''pay_1'')"
    by (simp add: demo_env_def)
  have 7: "payment_jobId demo_payment = 0"
    by (simp add: demo_payment_def)
  show ?thesis
    using verify_match_settles [OF 1 2 3 4 5 6, of owner] 7 by simp
qed

lemma flip_bit_char_neq:
  fixes c :: char
  assumes "n < 8"
  shows "flip_bit_char n c \<noteq> c"
proof -
  from assms consider "n = 0" | "n = 1" | "n = 2" | "n = 3" | "n = 4" | "n = 5" | "n = 6" | "n = 7"
    by linarith
  then show ?thesis
  proof cases
    case 1 then show ?thesis by (cases c) simp
  next
    case 2 then show ?thesis by (cases c) simp
  next
    case 3 then show ?thesis by (cases c) simp
  next
    case 4 then show ?thesis by (cases c) simp
  next
    case 5 then show ?thesis by (cases c) simp
  next
    case 6 then show ?thesis by (cases c) simp
  next
    case 7 then show ?thesis by (cases c) simp
  next
    case 8 then show ?thesis by (cases c) simp
  qed
qed

lemma flip_sig_bit_neq:
  assumes "i < length x" "n < 8"
  shows "flip_sig_bit i n x \<noteq> x"
proof
  assume "flip_sig_bit i n x = x"
  then have "flip_sig_bit i n x ! i = x ! i" by simp
  with assms(1) have "flip_bit_char n (x ! i) = x ! i"
    by (simp add: flip_sig_bit_def)
  with flip_bit_char_neq [OF assms(2)] show False by blast
qed

text \<open>
  C9. Whether a signature is accepted is a function of the order identifier, the
  transaction identifier, the key secret and the supplied signature alone: it is the
  equality of the supplied string with the digest, and the route refuses with
  "Invalid payment signature" exactly when that equality fails. So an accepted
  signature is the only accepted one: any other string is refused, in particular the
  accepted one with a single bit flipped.
\<close>

theorem signature_check_exact:
  "(hmac_sha256_hex e' = hmac_sha256_hex e \<and> RAZORPAY_KEY_SECRET e' = RAZORPAY_KEY_SECRET e \<longrightarrow>
      signature_ok e' order payid sig = signature_ok e order payid sig) \<and>
   (razorpay_order_id req = Some order \<and> razorpay_payment_id req = Some payid \<and>
    razorpay_signature req = Some sig \<and>
    findOne (\<lambda>p. razorpayOrderId p = order) (payments s) \<noteq> None \<longrightarrow>
      (fst (verifyPayment e s u req) = BadRequest ''Invalid payment signature'')
        = (\<not> signature_ok e order payid sig)) \<and>
   (signature_ok e order payid sig \<and> sig' \<noteq> sig \<longrightarrow> \<not> signature_ok e order payid sig') \<and>
   (signature_ok e order payid sig \<and> i < length sig \<and> n < 8 \<longrightarrow>
      \<not> signature_ok e order payid (flip_sig_bit i n sig))"
proof -
  have route: "(fst (verifyPayment e s u req) = BadRequest ''Invalid payment signature'')
        = (\<not> signature_ok e order payid sig)"
    if "razorpay_order_id req = Some order" "razorpay_payment_id req = Some payid"
      "razorpay_signature req = Some sig"
      "findOne (\<lambda>p. razorpayOrderId p = order) (payments s) \<noteq> None"
    using that by (auto simp: verifyPayment_def Let_def split: option.splits)
  have other: "\<not> signature_ok e order payid x" if "signature_ok e order payid sig" "x \<noteq> sig" for x
    using that by (simp add: signature_ok_def)
  have env: "signature_ok e' order payid sig = signature_ok e order payid sig"
    if "hmac_sha256_hex e' = hmac_sha256_hex e" "RAZORPAY_KEY_SECRET e' = RAZORPAY_KEY_SECRET e"
    using that by (simp add: signature_ok_def expectedSignature_def)
  show ?thesis
    using env route other [of sig'] other [OF _ flip_sig_bit_neq, of i n] by blast
qed

theorem signature_check_exact_witness:
  "signature_ok demo_env ''order_1'' ''pay_1'' ''secret:order_1|pay_1'' \<and>
   flip_sig_bit 19 0 ''secret:order_1|pay_1'' = ''secret:order_1|pay_0'' \<and>
   \<not> signature_ok demo_env ''order_1'' ''pay_1'' ''secret:order_1|pay_0'' \<and>
   \<not> signature_ok demo_env ''order_1'' ''pay_1'' ''secret:order_1|pay_2'' \<and>
   fst (verifyPayment demo_env st_ordered owner verify_req_bad) = BadRequest ''Invalid payment signature''"
proof -
  have ok: "signature_ok demo_env ''order_1'' ''pay_1'' ''secret:order_1|pay_1''"
    by (simp add: signature_ok_def expectedSignature_def demo_env_def)
  have fl: "flip_sig_bit 19 0 ''secret:order_1|pay_1'' = ''secret:order_1|pay_0''"
    by (simp add: flip_sig_bit_def)
  have 1: "razorpay_order_id verify_req_bad = Some ''order_1''"
    and 2: "razorpay_payment_id verify_req_bad = Some ''pay_1''"
    and 3: "razorpay_signature verify_req_bad = Some ''secret:order_1|pay_2''"
    by (simp_all add: verify_req_bad_def)
  have 4: "findOne (\<lambda>p. razorpayOrderId p = ''order_1'') (payments st_ordered) \<noteq> None"
    by (simp add: demo_defs findOne_def)
  have a: "\<not> signature_ok demo_env ''order_1'' ''pay_1'' ''secret:order_1|pay_2''"
    using signature_check_exact [of demo_env demo_env "''order_1''" "''pay_1''"
        "''secret:order_1|pay_1''" verify_req_bad st_ordered owner "''secret:order_1|pay_2''" 19 0] ok
    by simp
  have b: "\<not> signature_ok demo_env ''order_1'' ''pay_1'' (flip_sig_bit 19 0 ''secret:order_1|pay_1'')"
    using signature_check_exact [of demo_env demo_env "''order_1''" "''pay_1''"
        "''secret:order_1|pay_1''" verify_req_bad st_ordered owner "''secret:order_1|pay_2''" 19 0] ok
    by simp
  have c: "fst (verifyPayment demo_env st_ordered owner verify_req_bad) = BadRequest ''Invalid payment signature''"
    using signature_check_exact [of demo_env demo_env "''order_1''" "''pay_1''"
        "''secret:order_1|pay_2''" verify_req_bad st_ordered owner "''secret:order_1|pay_2''" 19 0]
      1 2 3 4 a
    by simp
  show ?thesis
    using ok fl a b c by simp
qed

text \<open>
  C10. The verification never looks at its caller: two callers sending the same request
  against the same store get the same answer and leave the same store. So a caller who is
  neither the payer nor the payee of the payment, nor the owner of its job, completes that
  job by supplying a valid signature.
\<close>

theorem verify_ignores_caller:
  "verifyPayment e s u req = verifyPayment e s u' req \<and>
   (razorpay_order_id req = Some order \<and> razorpay_payment_id req = Some payid \<and>
    razorpay_signature req = Some sig \<and>
    findOne (\<lambda>p. razorpayOrderId p = order) (payments s) = Some (pid, p) \<and>
    findById (payment_jobId p) (jobs s) = Some j \<and>
    signature_ok e order payid sig \<and>
    user_id u \<noteq> payerId p \<and> user_id u \<noteq> payeeId p \<and> user_id u \<noteq> createdBy j \<longrightarrow>
      fst (verifyPayment e s u req) = OK ''Payment verified successfully'' \<and>
      findById (payment_jobId p) (jobs (snd (verifyPayment e s u req)))
        = Some (j\<lparr>job_status := Completed\<rparr>))"
  by (auto simp: verifyPayment_def Let_def findById_updateById)

theorem verify_ignores_caller_witness:
  "user_id bob \<noteq> payerId demo_payment \<and> user_id bob \<noteq> payeeId demo_payment \<and>
   verifyPayment demo_env st_ordered bob verify_req = verifyPayment demo_env st_ordered owner verify_req \<and>
   fst (verifyPayment demo_env st_ordered bob verify_req) = OK ''Payment verified successfully'' \<and>
   map_option job_status (findById 0 (jobs (snd (verifyPayment demo_env st_ordered bob verify_req))))
     = Some Completed"
proof -
  have 1: "razorpay_order_id verify_req = Some ''order_1''"
    and 2: "razorpay_payment_id verify_req = Some ''pay_1''"
    and 3: "razorpay_signature verify_req = Some ''secret:order_1|pay_1''"
    by (simp_all add: verify_req_def)
  have 4: "findOne (\<lambda>p. razorpayOrderId p = ''order_1'') (payments st_ordered) = Some (3, demo_payment)"
    by (simp add: demo_defs findOne_def)
  have 5: "findById (payment_jobId demo_payment) (jobs st_ordered)
      = Some (demo_job\<lparr>job_status := In_progress, assignedTo := Some 1, bidsCount := 2\<rparr>)"
    by (simp add: demo_defs findById_def)
  have 6: "signature_ok demo_env ''order_1'' ''pay_1'' ''secret:order_1|pay_1''"
    by (simp add: signature_ok_def expectedSignature_def demo_env_def)
  have 7: "user_id bob \<noteq> payerId demo_payment \<and> user_id bob \<noteq> payeeId demo_payment \<and>
      user_id bob \<noteq> createdBy (demo_job\<lparr>job_status := In_progress, assignedTo := Some 1, bidsCount := 2\<rparr>)
      \<and> payment_jobId demo_payment = 0"
    by (simp add: demo_defs)
  note inst = verify_ignores_caller [of demo_env st_ordered bob verify_req owner "''order_1''"
      "''pay_1''" "''secret:order_1|pay_1''" 3 demo_payment
      "demo_job\<lparr>job_status := In_progress, assignedTo := Some 1, bidsCount := 2\<rparr>"]
  have same: "verifyPayment demo_env st_ordered bob verify_req
      = verifyPayment demo_env st_ordered owner verify_req"
    using inst by (rule conjunct1)
  have fin: "fst (verifyPayment demo_env st_ordered bob verify_req) = OK ''Payment verified successfully'' \<and>
      map_option job_status (findById 0 (jobs (snd (verifyPayment demo_env st_ordered bob verify_req))))
        = Some Completed"
    using conjunct2 [OF inst] 1 2 3 4 5 6 7 by simp
  show ?thesis
    using same fin 7 by blast
qed

section \<open>Bids\<close>

lemma set_updateById:
  "set (updateById i f xs) = (\<lambda>kv. if fst kv = i then (fst kv, f (snd kv)) else kv) ` set xs"
  by (simp add: updateById_def)

lemma set_updateMany:
  "set (updateMany P f xs) = (\<lambda>kv. if P (fst kv) (snd kv) then (fst kv, f (snd kv)) else kv) ` set xs"
  by (simp add: updateMany_def)

text \<open>
  C1. For a bid \<open>b\<close> on a job \<open>j\<close>: when the caller created the job and the job is
  open, the acceptance succeeds, the bid becomes accepted, the job becomes in progress and
  assigned to the bidder, and every other bid on the job is rejected (each of them is
  kept, with that status); when the job is not open, the owner is answered 400 "Job is no
  longer open" (the specification's ConflictError), and whoever calls, the store is the
  one before.
\<close>

theorem acceptBid_effect:
  assumes "findById bidId (bids s) = Some b"
    and "findById (bid_jobId b) (jobs s) = Some j"
  shows "(createdBy j = user_id u \<and> job_status j = Open \<longrightarrow>
            fst (acceptBid s u bidId) = OK ''Bid accepted successfully'' \<and>
            findById bidId (bids (snd (acceptBid s u bidId))) = Some (b\<lparr>bid_status := Accepted\<rparr>) \<and>
            findById (bid_jobId b) (jobs (snd (acceptBid s u bidId)))
              = Some (j\<lparr>job_status := In_progress, assignedTo := Some (freelancerId b)\<rparr>) \<and>
            (\<forall>k x. (k, x) \<in> set (bids s) \<and> k \<noteq> bidId \<and> bid_jobId x = bid_jobId b \<longrightarrow>
                (k, x\<lparr>bid_status := Rejected\<rparr>) \<in> set (bids (snd (acceptBid s u bidId)))) \<and>
            (\<forall>k x. (k, x) \<in> set (bids (snd (acceptBid s u bidId))) \<and> k \<noteq> bidId \<and>
                bid_jobId x = bid_jobId b \<longrightarrow> bid_status x = Rejected)) \<and>
         (createdBy j = user_id u \<and> job_status j \<noteq> Open \<longrightarrow>
            acceptBid s u bidId = (BadRequest ''Job is no longer open'', s)) \<and>
         (job_status j \<noteq> Open \<longrightarrow> snd (acceptBid s u bidId) = s)"
proof -
  let ?bs = "updateMany (\<lambda>k x. bid_jobId x = bid_jobId b \<and> k \<noteq> bidId)
               (\<lambda>x. x\<lparr>bid_status := Rejected\<rparr>)
               (updateById bidId (\<lambda>x. x\<lparr>bid_status := Accepted\<rparr>) (bids s))"
  have closed: "acceptBid s u bidId = (BadRequest ''Job is no longer open'', s)"
    if "createdBy j = user_id u" "job_status j \<noteq> Open"
    using assms that by (simp add: acceptBid_def)
  have still: "snd (acceptBid s u bidId) = s" if "job_status j \<noteq> Open"
    using assms that by (simp add: acceptBid_def)
  have run: "acceptBid s u bidId =
      (OK ''Bid accepted successfully'',
       s\<lparr>bids := ?bs,
         jobs := updateById (bid_jobId b)
                   (\<lambda>x. x\<lparr>job_status := In_progress, assignedTo := Some (freelancerId b)\<rparr>) (jobs s)\<rparr>)"
    if "createdBy j = user_id u" "job_status j = Open"
    using assms that by (simp add: acceptBid_def)
  have accepted: "findById bidId ?bs = Some (b\<lparr>bid_status := Accepted\<rparr>)"
    using assms(1) by (simp add: findById_updateMany findById_updateById)
  have assigned: "findById (bid_jobId b)
        (updateById (bid_jobId b)
           (\<lambda>x. x\<lparr>job_status := In_progress, assignedTo := Some (freelancerId b)\<rparr>) (jobs s))
      = Some (j\<lparr>job_status := In_progress, assignedTo := Some (freelancerId b)\<rparr>)"
    using assms(2) by (simp add: findById_updateById)
  have kept: "(k, x\<lparr>bid_status := Rejected\<rparr>) \<in> set ?bs"
    if "(k, x) \<in> set (bids s)" "k \<noteq> bidId" "bid_jobId x = bid_jobId b" for k x
  proof -
    from that(1,2) have "(k, x) \<in> set (updateById bidId (\<lambda>x. x\<lparr>bid_status := Accepted\<rparr>) (bids s))"
      by (force simp: set_updateById)
    with that(2,3) show ?thesis
      by (force simp: set_updateMany)
  qed
  have others: "bid_status x = Rejected"
    if "(k, x) \<in> set ?bs" "k \<noteq> bidId" "bid_jobId x = bid_jobId b" for k x
    using that by (auto simp: set_updateMany set_updateById split: if_splits)
  show ?thesis
  proof (cases "createdBy j = user_id u \<and> job_status j = Open")
    case True
    from run True have res: "fst (acceptBid s u bidId) = OK ''Bid accepted successfully''"
      "bids (snd (acceptBid s u bidId)) = ?bs"
      "jobs (snd (acceptBid s u bidId)) = updateById (bid_jobId b)
         (\<lambda>x. x\<lparr>job_status := In_progress, assignedTo := Some (freelancerId b)\<rparr>) (jobs s)"
      by simp_all
    show ?thesis
      unfolding res using True accepted assigned kept others by blast
  next
    case False
    then show ?thesis using closed still by blast
  qed
qed

theorem acceptBid_effect_witness:
  "fst (acceptBid st_open owner 1) = OK ''Bid accepted successfully'' \<and>
   findById 1 (bids (snd (acceptBid st_open owner 1))) = Some (bid_a\<lparr>bid_status := Accepted\<rparr>) \<and>
   findById 0 (jobs (snd (acceptBid st_open owner 1)))
     = Some (demo_job\<lparr>bidsCount := 2, job_status := In_progress, assignedTo := Some 1\<rparr>) \<and>
   (2, bid_b\<lparr>bid_status := Rejected\<rparr>) \<in> set (bids (snd (acceptBid st_open owner 1))) \<and>
   acceptBid st_assigned owner 2 = (BadRequest ''Job is no longer open'', st_assigned)"
proof -
  have 1: "findById 1 (bids st_open) = Some bid_a"
    by (simp add: st_open_def findById_def)
  have 2: "findById (bid_jobId bid_a) (jobs st_open) = Some (demo_job\<lparr>bidsCount := 2\<rparr>)"
    by (simp add: st_open_def bid_a_def findById_def)
  have 3: "createdBy (demo_job\<lparr>bidsCount := 2\<rparr>) = user_id owner"
    by (simp add: demo_job_def owner_def)
  have 4: "job_status (demo_job\<lparr>bidsCount := 2\<rparr>) = Open" "bid_jobId bid_a = 0" "freelancerId bid_a = 1"
    "(2, bid_b) \<in> set (bids st_open)" "bid_jobId bid_b = bid_jobId bid_a"
    by (simp_all add: demo_job_def bid_a_def bid_b_def st_open_def)
  have 5: "findById 2 (bids st_assigned) = Some (bid_b\<lparr>bid_status := Rejected\<rparr>)"
    by (simp add: st_assigned_def findById_def)
  have 6: "findById (bid_jobId (bid_b\<lparr>bid_status := Rejected\<rparr>)) (jobs st_assigned)
      = Some (demo_job\<lparr>job_status := In_progress, assignedTo := Some 1, bidsCount := 2\<rparr>)"
    by (simp add: st_assigned_def bid_b_def findById_def)
  have 7: "createdBy (demo_job\<lparr>job_status := In_progress, assignedTo := Some 1, bidsCount := 2\<rparr>)
      = user_id owner"
    by (simp add: demo_job_def owner_def)
  have a: "fst (acceptBid st_open owner 1) = OK ''Bid accepted successfully'' \<and>
      findById 1 (bids (snd (acceptBid st_open owner 1))) = Some (bid_a\<lparr>bid_status := Accepted\<rparr>) \<and>
      findById 0 (jobs (snd (acceptBid st_open owner 1)))
        = Some (demo_job\<lparr>bidsCount := 2, job_status := In_progress, assignedTo := Some 1\<rparr>) \<and>
      (2, bid_b\<lparr>bid_status := Rejected\<rparr>) \<in> set (bids (snd (acceptBid st_open owner 1)))"
    using acceptBid_effect [OF 1 2, of owner] 3 4 by simp
  have b: "acceptBid st_assigned owner 2 = (BadRequest ''Job is no longer open'', st_assigned)"
    using acceptBid_effect [OF 5 6, of owner] 7 by simp
  show ?thesis
    using a b by blast
qed

section \<open>Invariants of the reachable states\<close>

lemma map_fst_updateById: "map fst (updateById i f xs) = map fst xs"
  by (induction xs) (auto simp: updateById_def)

lemma in_updateById_D:
  "(i, v) \<in> set (updateById k f xs) \<Longrightarrow> \<exists>w. (i, w) \<in> set xs \<and> (v = w \<or> (i = k \<and> v = f w))"
  by (auto simp: set_updateById split: if_splits)

lemma in_deleteById_D: "(i, v) \<in> set (deleteById k xs) \<Longrightarrow> (i, v) \<in> set xs"
  by (simp add: deleteById_def)

lemma updateById_id: "updateById k (\<lambda>x. x) xs = xs"
  by (induction xs) (auto simp: updateById_def)

lemma findById_distinct:
  "distinct (map fst xs) \<Longrightarrow> (i, v) \<in> set xs \<Longrightarrow> findById i xs = Some v"
  by (simp add: findById_def)

lemma refs_ok_iff:
  "refs_ok s \<longleftrightarrow>
     distinct (map fst (jobs s)) \<and>
     (\<forall>i j. (i, j) \<in> set (jobs s) \<longrightarrow> i < next_oid s) \<and>
     (\<forall>k p. (k, p) \<in> set (payments s) \<longrightarrow>
        payment_jobId p < next_oid s \<and>
        (\<forall>j. (payment_jobId p, j) \<in> set (jobs s) \<longrightarrow> assignedTo j \<noteq> None))"
proof -
  have a: "(\<forall>kv\<in>set xs. Q (fst kv) (snd kv)) = (\<forall>i j. (i, j) \<in> set xs \<longrightarrow> Q i j)"
    for xs :: "(oid \<times> 'x) list" and Q
    by force
  have b: "(\<forall>kj\<in>set (jobs s). fst kj \<noteq> x \<or> assignedTo (snd kj) \<noteq> None)
      = (\<forall>j. (x, j) \<in> set (jobs s) \<longrightarrow> assignedTo j \<noteq> None)" for x
    by force
  have 1: "(\<forall>kv\<in>set (jobs s). fst kv < next_oid s)
      = (\<forall>i j. (i, j) \<in> set (jobs s) \<longrightarrow> i < next_oid s)"
    by (rule a [of "jobs s" "\<lambda>i j. i < next_oid s"])
  have 2: "(\<forall>kp\<in>set (payments s). payment_jobId (snd kp) < next_oid s \<and>
         (\<forall>j. (payment_jobId (snd kp), j) \<in> set (jobs s) \<longrightarrow> assignedTo j \<noteq> None))
      = (\<forall>k p. (k, p) \<in> set (payments s) \<longrightarrow> payment_jobId p < next_oid s \<and>
         (\<forall>j. (payment_jobId p, j) \<in> set (jobs s) \<longrightarrow> assignedTo j \<noteq> None))"
    by (rule a [of "payments s" "\<lambda>k p. payment_jobId p < next_oid s \<and>
         (\<forall>j. (payment_jobId p, j) \<in> set (jobs s) \<longrightarrow> assignedTo j \<noteq> None)"])
  show ?thesis
    unfolding refs_ok_def list_all_iff b 1 2 ..
qed

text \<open>
  A step that rewrites jobs without taking an assignment away, and payments without
  moving them to another job, keeps the references in order.
\<close>

lemma refs_ok_step:
  assumes "refs_ok s"
    and J: "jobs s' = updateById i f (jobs s)"
    and f: "\<And>j. assignedTo j \<noteq> None \<Longrightarrow> assignedTo (f j) \<noteq> None"
    and P: "payments s' = updateById k g (payments s)"
    and g: "\<And>p. payment_jobId (g p) = payment_jobId p"
    and N: "next_oid s \<le> next_oid s'"
  shows "refs_ok s'"
proof -
  from assms(1) have d: "distinct (map fst (jobs s))"
    and lt: "\<And>i j. (i, j) \<in> set (jobs s) \<Longrightarrow> i < next_oid s"
    and pay: "\<And>k p. (k, p) \<in> set (payments s) \<Longrightarrow> payment_jobId p < next_oid s"
    and asg: "\<And>k p j. (k, p) \<in> set (payments s) \<Longrightarrow> (payment_jobId p, j) \<in> set (jobs s)
                \<Longrightarrow> assignedTo j \<noteq> None"
    by (auto simp: refs_ok_iff)
  have 1: "distinct (map fst (jobs s'))"
    using d by (simp add: J map_fst_updateById)
  have 2: "a < next_oid s'" if "(a, j) \<in> set (jobs s')" for a j
    using in_updateById_D [of a j i f "jobs s"] that lt N by (fastforce simp: J)
  have 3: "payment_jobId p < next_oid s'" if "(a, p) \<in> set (payments s')" for a p
    using in_updateById_D [of a p k g "payments s"] that pay g N by (fastforce simp: P)
  have 4: "assignedTo j \<noteq> None"
    if "(a, p) \<in> set (payments s')" "(payment_jobId p, j) \<in> set (jobs s')" for a p j
  proof -
    from that(1) obtain q where q: "(a, q) \<in> set (payments s)" "payment_jobId p = payment_jobId q"
      using in_updateById_D [of a p k g "payments s"] g by (auto simp: P)
    from that(2) obtain w where w: "(payment_jobId p, w) \<in> set (jobs s)" "j = w \<or> j = f w"
      using in_updateById_D [of "payment_jobId p" j i f "jobs s"] by (auto simp: J)
    from q w(1) have "assignedTo w \<noteq> None"
      using asg by simp
    with w(2) f show ?thesis by auto
  qed
  show ?thesis
    unfolding refs_ok_iff using 1 2 3 4 by blast
qed

lemma refs_ok_jobs_step:
  assumes "refs_ok s"
    and "jobs s' = updateById i f (jobs s)"
    and "\<And>j. assignedTo j \<noteq> None \<Longrightarrow> assignedTo (f j) \<noteq> None"
    and "payments s' = payments s"
    and "next_oid s \<le> next_oid s'"
  shows "refs_ok s'"
  using refs_ok_step [of s s' i f 0 "\<lambda>x. x"] assms by (simp add: updateById_id)

lemma refs_ok_same:
  assumes "refs_ok s" and "jobs s' = jobs s" and "payments s' = payments s"
    and "next_oid s \<le> next_oid s'"
  shows "refs_ok s'"
  using refs_ok_step [of s s' 0 "\<lambda>x. x" 0 "\<lambda>x. x"] assms by (simp add: updateById_id)

lemma refs_ok_createJob: "refs_ok s \<Longrightarrow> refs_ok (snd (createJob e s u req))"
  by (fastforce simp: createJob_def refs_ok_iff split: option.splits)

lemma refs_ok_updateJob: "refs_ok s \<Longrightarrow> refs_ok (snd (updateJob e s u i upd))"
  by (auto simp: updateJob_def apply_update_def split: option.splits
      intro: refs_ok_jobs_step [where i = i and f = "apply_update e upd" and s = s])


lemma deleteById_keeps:
  "distinct (map fst xs) \<Longrightarrow> distinct (map fst (deleteById k xs))"
  by (simp add: deleteById_def distinct_map_filter)

lemma refs_ok_deleteJob: "refs_ok s \<Longrightarrow> refs_ok (snd (deleteJob s u i))"
  by (auto simp: deleteJob_def refs_ok_iff deleteById_keeps split: option.splits
      dest!: in_deleteById_D)

lemma refs_ok_placeBid: "refs_ok s \<Longrightarrow> refs_ok (snd (placeBid e s u req))"
  by (auto simp: placeBid_def split: option.splits
      intro: refs_ok_jobs_step [where i = "req_jobId req"
        and f = "\<lambda>j. j\<lparr>bidsCount := bidsCount j + 1\<rparr>" and s = s])

lemma refs_ok_acceptBid: "refs_ok s \<Longrightarrow> refs_ok (snd (acceptBid s u i))"
proof -
  assume ok: "refs_ok s"
  show ?thesis
  proof (cases "findById i (bids s)")
    case None
    with ok show ?thesis by (simp add: acceptBid_def)
  next
    case (Some b)
    with ok show ?thesis
      by (auto simp: acceptBid_def split: option.splits
          intro: refs_ok_jobs_step [where i = "bid_jobId b" and s = s
            and f = "\<lambda>x. x\<lparr>job_status := In_progress, assignedTo := Some (freelancerId b)\<rparr>"])
  qed
qed

lemma refs_ok_rejectBid: "refs_ok s \<Longrightarrow> refs_ok (snd (rejectBid s u i))"
  by (auto simp: rejectBid_def split: option.splits intro: refs_ok_same [where s = s])

lemma refs_ok_deleteBid: "refs_ok s \<Longrightarrow> refs_ok (snd (deleteBid s u i))"
proof -
  assume ok: "refs_ok s"
  show ?thesis
  proof (cases "findById i (bids s)")
    case None
    with ok show ?thesis by (simp add: deleteBid_def)
  next
    case (Some b)
    with ok show ?thesis
      by (auto simp: deleteBid_def
          intro: refs_ok_jobs_step [where i = "bid_jobId b" and s = s
            and f = "\<lambda>j. j\<lparr>bidsCount := bidsCount j - 1\<rparr>"])
  qed
qed

lemma new_payment_jobId:
  "new_payment e u req j payee order = Some p \<Longrightarrow> payment_jobId p = ord_jobId req"
  by (auto simp: new_payment_def split: option.splits if_splits)

lemma refs_ok_createOrder: "refs_ok s \<Longrightarrow> refs_ok (snd (createOrder e s u req reply))"
proof -
  assume ok: "refs_ok s"
  have new: "refs_ok (s\<lparr>payments := payments s @ [(next_oid s, p)], next_oid := Suc (next_oid s)\<rparr>)"
    if "findById (payment_jobId p) (jobs s) = Some j" "assignedTo j \<noteq> None" for p j
  proof -
    from ok have d: "distinct (map fst (jobs s))"
      by (simp add: refs_ok_iff)
    have only: "w = j" if "(payment_jobId p, w) \<in> set (jobs s)" for w
      using findById_distinct [OF d that] \<open>findById (payment_jobId p) (jobs s) = Some j\<close> by simp
    from that(1) have "(payment_jobId p, j) \<in> set (jobs s)"
      by (rule findById_in_set)
    with ok have "payment_jobId p < next_oid s"
      by (auto simp: refs_ok_iff)
    with ok only that(2) show ?thesis
      by (fastforce simp: refs_ok_iff)
  qed
  show ?thesis
    using ok by (auto simp: createOrder_def split: option.splits dest!: new_payment_jobId intro!: new)
qed

lemma refs_ok_mark:
  assumes "refs_ok s" and "\<And>p. payment_jobId (g p) = payment_jobId p"
  shows "refs_ok (s\<lparr>payments := updateById k g (payments s)\<rparr>)"
  using refs_ok_step [of s "s\<lparr>payments := updateById k g (payments s)\<rparr>" 0 "\<lambda>x. x" k g] assms
  by (simp add: updateById_id)

lemma refs_ok_settle:
  assumes "refs_ok s" and "\<And>p. payment_jobId (g p) = payment_jobId p"
  shows "refs_ok (s\<lparr>payments := updateById k g (payments s),
                   jobs := updateById i (\<lambda>x. x\<lparr>job_status := Completed\<rparr>) (jobs s)\<rparr>)"
  using refs_ok_step [of s "s\<lparr>payments := updateById k g (payments s),
      jobs := updateById i (\<lambda>x. x\<lparr>job_status := Completed\<rparr>) (jobs s)\<rparr>"
      i "\<lambda>x. x\<lparr>job_status := Completed\<rparr>" k g] assms
  by simp

lemma refs_ok_verifyPayment: "refs_ok s \<Longrightarrow> refs_ok (snd (verifyPayment e s u req))"
  by (auto simp: verifyPayment_def Let_def split: option.splits
      intro!: refs_ok_mark refs_ok_settle)

lemma refs_ok_webhook: "refs_ok s \<Longrightarrow> refs_ok (snd (webhook e s h b))"
  by (auto simp: webhook_def handlePaymentCaptured_def handlePaymentFailed_def
      split: option.splits webhook_event.splits req_body.splits
      intro!: refs_ok_mark refs_ok_settle)

lemma refs_ok_handle: "refs_ok s \<Longrightarrow> refs_ok (snd (handle e s r))"
  by (cases r)
    (simp_all add: refs_ok_createJob refs_ok_updateJob refs_ok_deleteJob refs_ok_placeBid
      refs_ok_acceptBid refs_ok_rejectBid refs_ok_deleteBid refs_ok_createOrder
      refs_ok_verifyPayment refs_ok_webhook)

lemma reachable_refs_ok: "reachable e s \<Longrightarrow> refs_ok s"
  by (induction rule: reachable.induct) (simp_all add: refs_ok_handle, simp add: refs_ok_def empty_store_def)


lemma jobs_ok_iff: "jobs_ok s \<longleftrightarrow> (\<forall>i j. (i, j) \<in> set (jobs s) \<longrightarrow> job_inv j)"
  by (force simp: jobs_ok_def list_all_iff)

lemma jobs_ok_update:
  assumes "jobs_ok s"
    and "\<And>j. (i, j) \<in> set (jobs s) \<Longrightarrow> job_inv j \<Longrightarrow> job_inv (f j)"
    and "jobs s' = updateById i f (jobs s)"
  shows "jobs_ok s'"
  unfolding jobs_ok_iff
proof (intro allI impI)
  fix a j
  assume "(a, j) \<in> set (jobs s')"
  then obtain w where "(a, w) \<in> set (jobs s)" "j = w \<or> (a = i \<and> j = f w)"
    using in_updateById_D [of a j i f "jobs s"] assms(3) by auto
  with assms(1,2) show "job_inv j"
    by (auto simp: jobs_ok_iff)
qed

lemma jobs_ok_createJob: "jobs_ok s \<Longrightarrow> jobs_ok (snd (createJob e s u req))"
  by (auto simp: createJob_def new_job_def jobs_ok_iff job_inv_def split: option.splits)

lemma jobs_ok_updateJob:
  "jobs_ok s \<Longrightarrow> upd_status upd = None \<Longrightarrow> jobs_ok (snd (updateJob e s u i upd))"
  by (auto simp: updateJob_def split: option.splits
      intro!: jobs_ok_update [where s = s and i = i and f = "apply_update e upd"]
      simp: apply_update_def job_inv_def)

lemma jobs_ok_deleteJob: "jobs_ok s \<Longrightarrow> jobs_ok (snd (deleteJob s u i))"
  by (auto simp: deleteJob_def jobs_ok_iff split: option.splits dest!: in_deleteById_D)

lemma jobs_ok_placeBid: "jobs_ok s \<Longrightarrow> jobs_ok (snd (placeBid e s u req))"
  by (auto simp: placeBid_def split: option.splits
      intro!: jobs_ok_update [where s = s and i = "req_jobId req"
        and f = "\<lambda>j. j\<lparr>bidsCount := bidsCount j + 1\<rparr>"]
      simp: job_inv_def)

lemma jobs_ok_acceptBid: "jobs_ok s \<Longrightarrow> jobs_ok (snd (acceptBid s u i))"
proof -
  assume ok: "jobs_ok s"
  show ?thesis
  proof (cases "findById i (bids s)")
    case None
    with ok show ?thesis by (simp add: acceptBid_def)
  next
    case (Some b)
    with ok show ?thesis
      by (auto simp: acceptBid_def split: option.splits
          intro!: jobs_ok_update [where s = s and i = "bid_jobId b"
            and f = "\<lambda>x. x\<lparr>job_status := In_progress, assignedTo := Some (freelancerId b)\<rparr>"]
          simp: job_inv_def)
  qed
qed

lemma jobs_ok_rejectBid: "jobs_ok s \<Longrightarrow> jobs_ok (snd (rejectBid s u i))"
  by (auto simp: rejectBid_def jobs_ok_def split: option.splits)

lemma jobs_ok_deleteBid: "jobs_ok s \<Longrightarrow> jobs_ok (snd (deleteBid s u i))"
proof -
  assume ok: "jobs_ok s"
  show ?thesis
  proof (cases "findById i (bids s)")
    case None
    with ok show ?thesis by (simp add: deleteBid_def)
  next
    case (Some b)
    with ok show ?thesis
      by (auto simp: deleteBid_def
          intro!: jobs_ok_update [where s = s and i = "bid_jobId b"
            and f = "\<lambda>j. j\<lparr>bidsCount := bidsCount j - 1\<rparr>"]
          simp: job_inv_def)
  qed
qed

lemma jobs_ok_createOrder: "jobs_ok s \<Longrightarrow> jobs_ok (snd (createOrder e s u req reply))"
  by (auto simp: createOrder_def jobs_ok_def split: option.splits)

text \<open>Completing the job of a payment on file keeps the invariant: that job has its freelancer.\<close>

lemma jobs_ok_settle:
  assumes "jobs_ok s" and "refs_ok s" and "(k, p) \<in> set (payments s)"
    and "jobs s' = updateById (payment_jobId p) (\<lambda>x. x\<lparr>job_status := Completed\<rparr>) (jobs s)"
  shows "jobs_ok s'"
proof (rule jobs_ok_update [OF assms(1) _ assms(4)])
  fix j
  assume "(payment_jobId p, j) \<in> set (jobs s)"
  with assms(2,3) have "assignedTo j \<noteq> None"
    by (auto simp: refs_ok_iff)
  then show "job_inv (j\<lparr>job_status := Completed\<rparr>)"
    by (simp add: job_inv_def)
qed

lemma jobs_ok_payments: "jobs_ok (s\<lparr>payments := ps\<rparr>) = jobs_ok s"
  by (simp add: jobs_ok_def)

lemma jobs_ok_settled:
  assumes "jobs_ok s" and "refs_ok s" and "findOne P (payments s) = Some (k, p)"
  shows "jobs_ok (s\<lparr>payments := ps,
                   jobs := updateById (payment_jobId p) (\<lambda>x. x\<lparr>job_status := Completed\<rparr>) (jobs s)\<rparr>)"
  using jobs_ok_settle [OF assms(1,2) findOne_in_set [OF assms(3)]] by simp

lemma jobs_ok_verifyPayment:
  "jobs_ok s \<Longrightarrow> refs_ok s \<Longrightarrow> jobs_ok (snd (verifyPayment e s u req))"
  by (auto simp: verifyPayment_def Let_def jobs_ok_payments split: option.splits
      intro!: jobs_ok_settled)

lemma jobs_ok_webhook:
  "jobs_ok s \<Longrightarrow> refs_ok s \<Longrightarrow> jobs_ok (snd (webhook e s h b))"
  by (auto simp: webhook_def handlePaymentCaptured_def handlePaymentFailed_def jobs_ok_payments
      split: option.splits webhook_event.splits req_body.splits intro!: jobs_ok_settled)

lemma jobs_ok_handle:
  assumes "jobs_ok s" and "refs_ok s" and "\<not> overrides_status r"
  shows "jobs_ok (snd (handle e s r))"
  using assms
  by (cases r)
    (simp_all add: jobs_ok_createJob jobs_ok_updateJob jobs_ok_deleteJob jobs_ok_placeBid
      jobs_ok_acceptBid jobs_ok_rejectBid jobs_ok_deleteBid jobs_ok_createOrder
      jobs_ok_verifyPayment jobs_ok_webhook)




lemma has_bid_iff:
  "has_bid f j xs \<longleftrightarrow> (f, j) \<in> set (map bid_pair xs)"
  by (force simp: has_bid_def list_ex_iff bid_pair_def)

lemma save_bid_refuses:
  "has_bid (freelancerId b) (bid_jobId b) xs \<Longrightarrow> save_bid i b xs = None"
  by (auto simp: save_bid_def has_bid_def same_pair_def list_ex_iff)




lemma reachable_st_created: "reachable demo_env st_created"
  using reachable.step [OF reachable.init, of demo_env "CreateJob owner job_req"]
  by (simp add: run_createJob)

lemma reachable_st_open: "reachable demo_env st_open"
  using reachable.step [OF reachable.step [OF reachable_st_created, of "PlaceBid alice bid_req_a"],
      of "PlaceBid bob bid_req_b"]
  by (simp add: run_placeBid)

lemma reachable_st_assigned: "reachable demo_env st_assigned"
proof -
  have "snd (handle demo_env st_open (AcceptBid owner 1)) = st_assigned"
    by (simp only: handle.simps run_acceptBid snd_conv)
  then show ?thesis
    using reachable.step [OF reachable_st_open, of "AcceptBid owner 1"] by (simp only:)
qed

lemma reachable_st_ordered: "reachable demo_env st_ordered"
  using reachable.step [OF reachable_st_assigned, of "CreateOrder owner order_req (Some ''order_1'')"]
  by (simp add: run_createOrder)

lemma reachable_st_paid: "reachable demo_env st_paid"
  using reachable.step [OF reachable_st_ordered, of "VerifyPayment owner verify_req"]
  by (simp add: run_verifyPayment)



lemma findById_deleteById:
  "findById i (deleteById k xs) = (if i = k then None else findById i xs)"
  by (induction xs) (auto simp: findById_def deleteById_def)

text \<open>
  Job by job: a job that satisfies the invariant satisfies it after any request, unless
  the request is an update of that job whose status crosses between the two groups of
  statuses.
\<close>

lemma apply_update_kept:
  assumes "job_inv j" and "\<not> crossing_override j i (UpdateJob u i upd)"
  shows "job_inv (apply_update e upd j)"
proof (cases "upd_status upd")
  case None
  with assms(1) show ?thesis
    by (simp add: apply_update_def job_inv_def)
next
  case (Some x)
  show ?thesis
  proof (cases "parse_status x")
    case None
    with Some assms(1) show ?thesis
      by (simp add: apply_update_def job_inv_def)
  next
    case (Some st)
    with \<open>upd_status upd = Some x\<close> assms show ?thesis
      by (simp add: apply_update_def job_inv_def)
  qed
qed

lemma updateJob_jobs:
  "jobs (snd (updateJob e s u k upd)) = jobs s \<or>
   jobs (snd (updateJob e s u k upd)) = updateById k (apply_update e upd) (jobs s)"
  by (simp add: updateJob_def split: option.splits)

lemma placeBid_jobs:
  "jobs (snd (placeBid e s u req)) = jobs s \<or>
   jobs (snd (placeBid e s u req))
     = updateById (req_jobId req) (\<lambda>j. j\<lparr>bidsCount := bidsCount j + 1\<rparr>) (jobs s)"
  by (simp add: placeBid_def split: option.splits)

lemma acceptBid_jobs:
  "jobs (snd (acceptBid s u k)) = jobs s \<or>
   (\<exists>b :: bid. jobs (snd (acceptBid s u k))
      = updateById (bid_jobId b)
          (\<lambda>x. x\<lparr>job_status := In_progress, assignedTo := Some (freelancerId b)\<rparr>) (jobs s))"
proof (cases "findById k (bids s)")
  case None
  then show ?thesis by (simp add: acceptBid_def)
next
  case (Some b)
  then have "jobs (snd (acceptBid s u k)) = jobs s \<or>
      jobs (snd (acceptBid s u k))
        = updateById (bid_jobId b)
            (\<lambda>x. x\<lparr>job_status := In_progress, assignedTo := Some (freelancerId b)\<rparr>) (jobs s)"
    by (simp add: acceptBid_def split: option.splits)
  then show ?thesis by blast
qed

lemma deleteBid_jobs:
  "jobs (snd (deleteBid s u k)) = jobs s \<or>
   (\<exists>b :: bid. jobs (snd (deleteBid s u k))
      = updateById (bid_jobId b) (\<lambda>j. j\<lparr>bidsCount := bidsCount j - 1\<rparr>) (jobs s))"
proof (cases "findById k (bids s)")
  case None
  then show ?thesis by (simp add: deleteBid_def)
next
  case (Some b)
  then have "jobs (snd (deleteBid s u k)) = jobs s \<or>
      jobs (snd (deleteBid s u k))
        = updateById (bid_jobId b) (\<lambda>j. j\<lparr>bidsCount := bidsCount j - 1\<rparr>) (jobs s)"
    by (simp add: deleteBid_def)
  then show ?thesis by blast
qed

lemma verifyPayment_jobs:
  "jobs (snd (verifyPayment e s u req)) = jobs s \<or>
   (\<exists>P k p. findOne P (payments s) = Some (k, p) \<and>
      jobs (snd (verifyPayment e s u req))
        = updateById (payment_jobId p) (\<lambda>x. x\<lparr>job_status := Completed\<rparr>) (jobs s))"
proof (cases "razorpay_order_id req")
  case None
  then show ?thesis by (simp add: verifyPayment_def)
next
  case (Some order)
  show ?thesis
  proof (cases "findOne (\<lambda>p. razorpayOrderId p = order) (payments s)")
    case None
    with Some show ?thesis
      by (simp add: verifyPayment_def split: option.splits)
  next
    case found: (Some kp)
    obtain k p where kp: "kp = (k, p)" by (cases kp)
    have "jobs (snd (verifyPayment e s u req)) = jobs s \<or>
        jobs (snd (verifyPayment e s u req))
          = updateById (payment_jobId p) (\<lambda>x. x\<lparr>job_status := Completed\<rparr>) (jobs s)"
      using Some found kp by (simp add: verifyPayment_def Let_def split: option.splits)
    with found kp show ?thesis by blast
  qed
qed

lemma job_kept:
  assumes "refs_ok s" and "findById i (jobs s) = Some j" and "job_inv j"
    and "findById i (jobs (snd (handle e s r))) = Some j'"
    and "\<not> crossing_override j i r"
  shows "job_inv j'"
proof (cases r)
  case (CreateJob u req)
  with assms(2,3,4) show ?thesis
    by (auto simp: createJob_def findById_append split: option.splits if_splits)
next
  case (UpdateJob u k upd)
  show ?thesis
  proof (cases "i = k")
    case True
    with UpdateJob assms(5) have "job_inv (apply_update e upd j)"
      using apply_update_kept [OF assms(3), of i u upd e] by simp
    with updateJob_jobs [of e s u k upd] UpdateJob True assms(2,3,4) show ?thesis
      by (auto simp: findById_updateById)
  next
    case False
    with updateJob_jobs [of e s u k upd] UpdateJob assms(2,3,4) show ?thesis
      by (auto simp: findById_updateById)
  qed
next
  case (DeleteJob u k)
  with assms(2,3,4) show ?thesis
    by (auto simp: deleteJob_def findById_deleteById split: option.splits if_splits)
next
  case (PlaceBid u req)
  with placeBid_jobs [of e s u req] assms(2,3,4) show ?thesis
    by (auto simp: findById_updateById job_inv_def split: if_splits)
next
  case (AcceptBid u k)
  from acceptBid_jobs [of s u k] consider
      (same) "jobs (snd (acceptBid s u k)) = jobs s"
    | (upd) b :: bid where "jobs (snd (acceptBid s u k))
        = updateById (bid_jobId b)
            (\<lambda>x. x\<lparr>job_status := In_progress, assignedTo := Some (freelancerId b)\<rparr>) (jobs s)"
    by blast
  then show ?thesis
  proof cases
    case same
    with AcceptBid assms(2,3,4) show ?thesis by simp
  next
    case upd
    with AcceptBid assms(2,3,4) show ?thesis
      by (cases "i = bid_jobId b") (auto simp: findById_updateById job_inv_def)
  qed
next
  case (RejectBid u k)
  with assms(2,3,4) show ?thesis
    by (auto simp: rejectBid_def split: option.splits if_splits)
next
  case (DeleteBid u k)
  from deleteBid_jobs [of s u k] consider
      (same) "jobs (snd (deleteBid s u k)) = jobs s"
    | (upd) b :: bid where "jobs (snd (deleteBid s u k))
        = updateById (bid_jobId b) (\<lambda>j. j\<lparr>bidsCount := bidsCount j - 1\<rparr>) (jobs s)"
    by blast
  then show ?thesis
  proof cases
    case same
    with DeleteBid assms(2,3,4) show ?thesis by simp
  next
    case upd
    with DeleteBid assms(2,3,4) show ?thesis
      by (cases "i = bid_jobId b") (auto simp: findById_updateById job_inv_def)
  qed
next
  case (CreateOrder u req reply)
  with assms(2,3,4) show ?thesis
    by (auto simp: createOrder_def split: option.splits if_splits)
next
  case (VerifyPayment u req)
  have settle: "job_inv (j\<lparr>job_status := Completed\<rparr>)"
    if "findOne P (payments s) = Some (k, p)" "payment_jobId p = i" for P k p
  proof -
    from assms(2) have "(i, j) \<in> set (jobs s)"
      by (rule findById_in_set)
    with assms(1) findOne_in_set [OF that(1)] that(2) have "assignedTo j \<noteq> None"
      by (auto simp: refs_ok_iff)
    then show ?thesis
      by (simp add: job_inv_def)
  qed
  from verifyPayment_jobs [of e s u req] consider
      (same) "jobs (snd (verifyPayment e s u req)) = jobs s"
    | (upd) P k p where "findOne P (payments s) = Some (k, p)"
        "jobs (snd (verifyPayment e s u req))
          = updateById (payment_jobId p) (\<lambda>x. x\<lparr>job_status := Completed\<rparr>) (jobs s)"
    by blast
  then show ?thesis
  proof cases
    case same
    with VerifyPayment assms(2,3,4) show ?thesis by simp
  next
    case upd
    show ?thesis
    proof (cases "i = payment_jobId p")
      case True
      with settle [OF upd(1)] upd(2) VerifyPayment assms(2,4) show ?thesis
        by (auto simp: findById_updateById)
    next
      case False
      with upd(2) VerifyPayment assms(2,3,4) show ?thesis
        by (auto simp: findById_updateById)
    qed
  qed
next
  case (Webhook h payload)
  with assms(2,3,4) show ?thesis
    by (simp add: webhook_def)
qed

lemma crossing_breaks:
  assumes "findById i (jobs s) = Some j" and "job_inv j" and "crossing_override j i r"
    and "fst (handle e s r) = OK ''Job updated successfully''"
  shows "\<exists>j'. findById i (jobs (snd (handle e s r))) = Some j' \<and> \<not> job_inv j'"
proof (cases r)
  case (UpdateJob u k upd)
  with assms show ?thesis
    by (auto simp: updateJob_def findById_updateById apply_update_def job_inv_def
        split: option.splits if_splits)
qed (use assms(3) in simp_all)

text \<open>
  C2, as the code has it. The owner's update of a job may carry a \<^verbatim>\<open>status\<close>, which is
  written as it comes; every other request keeps the invariant: when each job of a
  reachable state has a freelancer assigned exactly if it is in progress or completed,
  the same holds after the request. The empty database satisfies it. Job by job, and
  for every request: a job that satisfies the invariant in a reachable state satisfies it
  afterwards, unless the request is an update of that very job whose status moves it
  between in progress or completed and open or cancelled; and such an update, when it
  succeeds, does leave the job against the invariant.
\<close>

theorem job_invariant_preserved:
  "jobs_ok empty_store \<and>
   (reachable e s \<and> jobs_ok s \<and> \<not> overrides_status r \<longrightarrow> jobs_ok (snd (handle e s r))) \<and>
   (reachable e s \<and> findById i (jobs s) = Some j \<and> job_inv j \<and>
    findById i (jobs (snd (handle e s r))) = Some j' \<and> \<not> crossing_override j i r \<longrightarrow>
      job_inv j') \<and>
   (findById i (jobs s) = Some j \<and> job_inv j \<and> crossing_override j i r \<and>
    fst (handle e s r) = OK ''Job updated successfully'' \<longrightarrow>
      (\<exists>j'. findById i (jobs (snd (handle e s r))) = Some j' \<and> \<not> job_inv j'))"
proof -
  have "jobs_ok empty_store"
    by (simp add: jobs_ok_def empty_store_def)
  moreover have "jobs_ok (snd (handle e s r))"
    if "reachable e s" "jobs_ok s" "\<not> overrides_status r"
    using jobs_ok_handle [OF that(2) reachable_refs_ok [OF that(1)] that(3)] .
  moreover have "job_inv j'"
    if "reachable e s" "findById i (jobs s) = Some j" "job_inv j"
      "findById i (jobs (snd (handle e s r))) = Some j'" "\<not> crossing_override j i r"
    using job_kept [OF reachable_refs_ok [OF that(1)] that(2-5)] .
  moreover have "\<exists>j'. findById i (jobs (snd (handle e s r))) = Some j' \<and> \<not> job_inv j'"
    if "findById i (jobs s) = Some j" "job_inv j" "crossing_override j i r"
      "fst (handle e s r) = OK ''Job updated successfully''"
    using crossing_breaks [OF that] .
  ultimately show ?thesis by blast
qed

theorem job_invariant_preserved_witness:
  "reachable demo_env st_ordered \<and> jobs_ok st_ordered \<and>
   \<not> overrides_status (VerifyPayment owner verify_req) \<and>
   snd (handle demo_env st_ordered (VerifyPayment owner verify_req)) = st_paid \<and>
   jobs_ok st_paid \<and>
   job_inv (demo_job\<lparr>job_status := Completed, assignedTo := Some 1, bidsCount := 2\<rparr>) \<and>
   \<not> crossing_override demo_job 0 (UpdateJob owner 0 (status_update ''cancelled'')) \<and>
   job_inv (demo_job\<lparr>job_status := Cancelled\<rparr>) \<and>
   crossing_override demo_job 0 (UpdateJob owner 0 (status_update ''completed'')) \<and>
   \<not> job_inv (demo_job\<lparr>job_status := Completed\<rparr>)"
proof -
  let ?j = "demo_job\<lparr>job_status := In_progress, assignedTo := Some 1, bidsCount := 2\<rparr>"
  let ?j' = "demo_job\<lparr>job_status := Completed, assignedTo := Some 1, bidsCount := 2\<rparr>"
  let ?v = "VerifyPayment owner verify_req"
  let ?c = "UpdateJob owner 0 (status_update ''cancelled'')"
  let ?d = "UpdateJob owner 0 (status_update ''completed'')"
  have 1: "jobs_ok st_ordered"
    by (simp add: jobs_ok_def job_inv_def demo_defs)
  have 2: "\<not> overrides_status ?v" "\<not> crossing_override ?j 0 ?v"
    by simp_all
  have 3: "snd (handle demo_env st_ordered ?v) = st_paid"
    by (simp add: run_verifyPayment)
  have 4: "jobs_ok st_paid"
    using job_invariant_preserved [of demo_env st_ordered ?v 0 ?j ?j']
      reachable_st_ordered 1 2 3 by simp
  have 5: "findById 0 (jobs st_ordered) = Some ?j" "job_inv ?j" "findById 0 (jobs st_paid) = Some ?j'"
    by (simp_all add: findById_def job_inv_def demo_defs)
  have 6: "job_inv ?j'"
    using job_invariant_preserved [of demo_env st_ordered ?v 0 ?j ?j']
      reachable_st_ordered 2 3 5 by simp
  have 7: "findById 0 (jobs st_created) = Some demo_job" "job_inv demo_job"
    by (simp_all add: findById_def job_inv_def demo_defs)
  have 8: "handle demo_env st_created ?c
      = (OK ''Job updated successfully'', st_created\<lparr>jobs := [(0, demo_job\<lparr>job_status := Cancelled\<rparr>)]\<rparr>)"
    "handle demo_env st_created ?d
      = (OK ''Job updated successfully'', st_created\<lparr>jobs := [(0, demo_job\<lparr>job_status := Completed\<rparr>)]\<rparr>)"
    by (simp_all add: updateJob_def update_valid_def apply_update_def parse_status_def
        demo_defs route_defs)
  have 9: "\<not> crossing_override demo_job 0 ?c" "crossing_override demo_job 0 ?d"
    by (simp_all add: status_update_def parse_status_def demo_job_def)
  have 10: "job_inv (demo_job\<lparr>job_status := Cancelled\<rparr>)"
    using job_invariant_preserved [of demo_env st_created ?c 0 demo_job
        "demo_job\<lparr>job_status := Cancelled\<rparr>"]
      reachable_st_created 7 8 9 by (simp add: findById_def)
  have 11: "\<not> job_inv (demo_job\<lparr>job_status := Completed\<rparr>)"
    using job_invariant_preserved [of demo_env st_created ?d 0 demo_job
        "demo_job\<lparr>job_status := Completed\<rparr>"]
      7 8 9 by (simp add: findById_def)
  show ?thesis
    using reachable_st_ordered 1 2 3 4 6 9 10 11 by blast
qed

text \<open>
  The claim as stated fails on the update route: on the job just created, open and
  unassigned, the owner's update with status \<^verbatim>\<open>completed\<close> succeeds and leaves a completed
  job with no freelancer.
\<close>

theorem job_invariant_override_counterexample:
  "reachable demo_env st_created \<and> jobs_ok st_created \<and>
   handle demo_env st_created (UpdateJob owner 0 (status_update ''completed''))
     = (OK ''Job updated successfully'',
        st_created\<lparr>jobs := [(0, demo_job\<lparr>job_status := Completed\<rparr>)]\<rparr>) \<and>
   assignedTo (demo_job\<lparr>job_status := Completed\<rparr>) = None \<and>
   \<not> jobs_ok (st_created\<lparr>jobs := [(0, demo_job\<lparr>job_status := Completed\<rparr>)]\<rparr>)"
proof -
  have 1: "jobs_ok st_created"
    by (simp add: jobs_ok_def job_inv_def demo_defs)
  have 2: "handle demo_env st_created (UpdateJob owner 0 (status_update ''completed''))
     = (OK ''Job updated successfully'',
        st_created\<lparr>jobs := [(0, demo_job\<lparr>job_status := Completed\<rparr>)]\<rparr>)"
    by (simp add: updateJob_def update_valid_def apply_update_def parse_status_def
        demo_defs route_defs)
  have 3: "assignedTo (demo_job\<lparr>job_status := Completed\<rparr>) = None"
    by (simp add: demo_job_def)
  have 4: "\<not> jobs_ok (st_created\<lparr>jobs := [(0, demo_job\<lparr>job_status := Completed\<rparr>)]\<rparr>)"
    by (simp add: jobs_ok_def job_inv_def demo_defs)
  show ?thesis
    using reachable_st_created 1 2 3 4 by blast
qed

section \<open>One bid for a freelancer and a job\<close>





section \<open>The webhook as the server mounts it\<close>

lemma webhook_as_mounted:
  "handle e s (Webhook h payload) = (ServerError ''Webhook processing error'', s)"
  by (simp add: webhook_def)

text \<open>
  The two settlement paths, each taken alone: a second verification with the same request,
  by any caller, answers as the first did and leaves the store as the first left it, and
  so does a second run of the handler of \<^verbatim>\<open>payment.captured\<close> on the same entity. The
  store holds no timestamps.
\<close>

lemma verifyPayment_replay:
  "verifyPayment e (snd (verifyPayment e s u req)) u' req = verifyPayment e s u req"
  by (auto simp: verifyPayment_def Let_def findOne_updateById findById_updateById
      updateById_idem split: option.splits)

lemma handlePaymentCaptured_replay:
  "handlePaymentCaptured (handlePaymentCaptured s d) d = handlePaymentCaptured s d"
  by (auto simp: handlePaymentCaptured_def findOne_updateById updateById_idem
      split: option.splits)

text \<open>
  C5. Settlement through the webhook does not take place. In the scenario, with the order
  created and the job in progress, a \<^verbatim>\<open>payment.captured\<close> delivery with the right signature
  is answered 500 and changes nothing, the first time and on a replay: the job stays in
  progress. The handler of the event would complete the job, and the route would call it
  if it were given the bytes of the payload. The verification route does settle, and a
  second verification finds the store as the first left it, up to the \<^verbatim>\<open>updatedAt\<close> of
  the job, which is not part of the store here and which \<^verbatim>\<open>findByIdAndUpdate\<close> sets anew.
\<close>

theorem captured_webhook_never_settles:
  "reachable demo_env st_ordered \<and>
   settled_status st_ordered ''order_1'' = Some In_progress \<and>
   handle demo_env st_ordered (Webhook (Some ''secret:captured'') ''captured'')
     = (ServerError ''Webhook processing error'', st_ordered) \<and>
   handle demo_env
       (snd (handle demo_env st_ordered (Webhook (Some ''secret:captured'') ''captured'')))
       (Webhook (Some ''secret:captured'') ''captured'')
     = (ServerError ''Webhook processing error'', st_ordered) \<and>
   webhook demo_env st_ordered (Some ''secret:captured'') (Buffer ''captured'')
     = (OK ''ok'', handlePaymentCaptured st_ordered captured_1) \<and>
   settled_status (handlePaymentCaptured st_ordered captured_1) ''order_1'' = Some Completed \<and>
   handle demo_env st_ordered (VerifyPayment owner verify_req)
     = (OK ''Payment verified successfully'', st_paid) \<and>
   handle demo_env st_paid (VerifyPayment owner verify_req)
     = (OK ''Payment verified successfully'', st_paid) \<and>
   settled_status st_paid ''order_1'' = Some Completed"
proof -
  have 1: "settled_status st_ordered ''order_1'' = Some In_progress"
    "settled_status st_paid ''order_1'' = Some Completed"
    by (simp_all add: settled_status_def demo_defs route_defs)
  have 2: "webhook demo_env st_ordered (Some ''secret:captured'') (Buffer ''captured'')
      = (OK ''ok'', handlePaymentCaptured st_ordered captured_1)"
    by (simp add: webhook_def demo_env_def or_default_def)
  have 3: "settled_status (handlePaymentCaptured st_ordered captured_1) ''order_1'' = Some Completed"
    by (simp add: settled_status_def handlePaymentCaptured_def demo_defs route_defs)
  have 4: "handle demo_env st_ordered (VerifyPayment owner verify_req)
      = (OK ''Payment verified successfully'', st_paid)"
    by (simp add: run_verifyPayment)
  have 5: "handle demo_env st_paid (VerifyPayment owner verify_req)
      = (OK ''Payment verified successfully'', st_paid)"
    by (simp add: verifyPayment_def demo_defs route_defs)
  have 6: "handle demo_env st_ordered (Webhook (Some ''secret:captured'') ''captured'')
      = (ServerError ''Webhook processing error'', st_ordered)"
    by (rule webhook_as_mounted)
  have 7: "handle demo_env
       (snd (handle demo_env st_ordered (Webhook (Some ''secret:captured'') ''captured'')))
       (Webhook (Some ''secret:captured'') ''captured'')
     = (ServerError ''Webhook processing error'', st_ordered)"
    by (simp only: webhook_as_mounted snd_conv)
  show ?thesis
    using reachable_st_ordered 1 2 3 4 5 6 7 by blast
qed

section \<open>Decided bids\<close>

text \<open>
  C7. The rejection of a bid does not look at the status of the bid. In the scenario,
  after the acceptance, the owner rejects the accepted bid: the answer is 200, the bid is
  rejected, and the job is still in progress and assigned to its freelancer. The deletion
  of that bid by its freelancer, in the same state, is refused because the bid is decided.
\<close>

theorem rejectBid_overwrites_accepted:
  "reachable demo_env st_assigned \<and>
   findById 1 (bids st_assigned) = Some (bid_a\<lparr>bid_status := Accepted\<rparr>) \<and>
   rejectBid st_assigned owner 1
     = (OK ''Bid rejected successfully'',
        st_assigned\<lparr>bids := [(1, bid_a\<lparr>bid_status := Rejected\<rparr>),
                             (2, bid_b\<lparr>bid_status := Rejected\<rparr>)]\<rparr>) \<and>
   findById 0 (jobs st_assigned)
     = Some (demo_job\<lparr>job_status := In_progress, assignedTo := Some 1, bidsCount := 2\<rparr>) \<and>
   deleteBid st_assigned alice 1
     = (BadRequest ''Cannot delete a bid that has been accepted or rejected'', st_assigned)"
proof -
  have 1: "findById 1 (bids st_assigned) = Some (bid_a\<lparr>bid_status := Accepted\<rparr>)"
    "findById 0 (jobs st_assigned)
       = Some (demo_job\<lparr>job_status := In_progress, assignedTo := Some 1, bidsCount := 2\<rparr>)"
    by (simp_all add: st_assigned_def findById_def)
  have 2: "rejectBid st_assigned owner 1
     = (OK ''Bid rejected successfully'',
        st_assigned\<lparr>bids := [(1, bid_a\<lparr>bid_status := Rejected\<rparr>),
                             (2, bid_b\<lparr>bid_status := Rejected\<rparr>)]\<rparr>)"
    by (simp add: rejectBid_def demo_defs route_defs)
  have 3: "deleteBid st_assigned alice 1
     = (BadRequest ''Cannot delete a bid that has been accepted or rejected'', st_assigned)"
    by (simp add: deleteBid_def demo_defs route_defs)
  show ?thesis
    using reachable_st_assigned 1 2 3 by blast
qed

section \<open>Paid payments\<close>

lemma paid_payment_status:
  assumes "findById k (payments s) = Some p" and "payment_status p = Paid"
  shows "map_option payment_status (findById k (payments (snd (handle e s r))))
           = Some (if voids_payment e s k r then Failed else Paid)"
proof (cases r)
  case (CreateJob u req)
  with assms show ?thesis by (auto simp: createJob_def split: option.splits)
next
  case (UpdateJob u i upd)
  with assms show ?thesis by (auto simp: updateJob_def split: option.splits)
next
  case (DeleteJob u i)
  with assms show ?thesis by (auto simp: deleteJob_def split: option.splits)
next
  case (PlaceBid u req)
  with assms show ?thesis by (auto simp: placeBid_def split: option.splits)
next
  case (AcceptBid u i)
  with assms show ?thesis by (auto simp: acceptBid_def split: option.splits)
next
  case (RejectBid u i)
  with assms show ?thesis by (auto simp: rejectBid_def split: option.splits)
next
  case (DeleteBid u i)
  with assms show ?thesis by (auto simp: deleteBid_def split: option.splits)
next
  case (CreateOrder u req reply)
  with assms show ?thesis
    by (auto simp: createOrder_def findById_append split: option.splits)
next
  case (VerifyPayment u req)
  with assms show ?thesis
    by (auto simp: verifyPayment_def Let_def findById_updateById split: option.splits)
next
  case (Webhook h payload)
  with assms show ?thesis by (simp add: webhook_def)
qed

text \<open>
  C8, as the code has it. A paid payment is never deleted and never becomes created or
  refunded. It stays paid under every request but one: a verification whose order
  identifier locates this payment and whose signature does not match writes failed,
  whatever the status was.
\<close>

theorem paid_payment_frame:
  assumes "findById k (payments s) = Some p" and "payment_status p = Paid"
  shows "map_option payment_status (findById k (payments (snd (handle e s r))))
           = Some (if voids_payment e s k r then Failed else Paid)"
  using paid_payment_status [OF assms] .

theorem paid_payment_frame_witness:
  "map_option payment_status (findById 3 (payments st_paid)) = Some Paid \<and>
   map_option payment_status
     (findById 3 (payments (snd (handle demo_env st_paid (VerifyPayment bob verify_req)))))
     = Some Paid \<and>
   map_option payment_status
     (findById 3 (payments (snd (handle demo_env st_paid (Webhook (Some ''secret:failed'') ''failed'')))))
     = Some Paid \<and>
   map_option payment_status
     (findById 3 (payments (snd (handle demo_env st_paid (VerifyPayment bob verify_req_bad)))))
     = Some Failed"
proof -
  let ?p = "demo_payment\<lparr>razorpayPaymentId := Some ''pay_1'',
                          razorpaySignature := Some ''secret:order_1|pay_1'',
                          payment_status := Paid\<rparr>"
  have 1: "findById 3 (payments st_paid) = Some ?p"
    by (simp add: st_paid_def findById_def)
  have 2: "payment_status ?p = Paid"
    by simp
  have 3: "\<not> voids_payment demo_env st_paid 3 (VerifyPayment bob verify_req)"
    "\<not> voids_payment demo_env st_paid 3 (Webhook (Some ''secret:failed'') ''failed'')"
    "voids_payment demo_env st_paid 3 (VerifyPayment bob verify_req_bad)"
    by (simp_all add: demo_defs route_defs)
  show ?thesis
    using paid_payment_frame [OF 1 2, of demo_env "VerifyPayment bob verify_req"]
      paid_payment_frame [OF 1 2, of demo_env "Webhook (Some ''secret:failed'') ''failed''"]
      paid_payment_frame [OF 1 2, of demo_env "VerifyPayment bob verify_req_bad"] 1 3
    by simp
qed

text \<open>
  The claim as stated fails on the verification route: on the paid payment of the
  scenario, a verification of its order with a wrong signature, by a user who is no party
  to the payment, is answered 400 and leaves the payment failed.
\<close>

theorem paid_payment_counterexample:
  "reachable demo_env st_paid \<and>
   map_option payment_status (findById 3 (payments st_paid)) = Some Paid \<and>
   fst (handle demo_env st_paid (VerifyPayment bob verify_req_bad))
     = BadRequest ''Invalid payment signature'' \<and>
   map_option payment_status
     (findById 3 (payments (snd (handle demo_env st_paid (VerifyPayment bob verify_req_bad)))))
     = Some Failed"
proof -
  have 1: "map_option payment_status (findById 3 (payments st_paid)) = Some Paid"
    by (simp add: st_paid_def findById_def)
  have 2: "fst (handle demo_env st_paid (VerifyPayment bob verify_req_bad))
      = BadRequest ''Invalid payment signature''"
    "map_option payment_status
       (findById 3 (payments (snd (handle demo_env st_paid (VerifyPayment bob verify_req_bad)))))
       = Some Failed"
    by (simp_all add: verifyPayment_def demo_defs route_defs)
  show ?thesis
    using reachable_st_paid 1 2 by blast
qed

end
